theory Spec2Isabelle
  imports Complex_Main
begin

section \<open>Python values and strings\<close>

text \<open>
  The agents exchange data through the sheets of one workbook. A cell read from a sheet
  (and a scalar read from the decoded payload) is \<open>None\<close>, a number or a text.
  Numbers are exact rationals here: the binary rounding of Python's floats is outside
  this development. Texts are byte strings; the character classes below are the ASCII
  part of Python's.
\<close>

datatype cell = CNone | CNum rat | CStr string

datatype py_error = TypeError | ValueError

text \<open>Truthiness, as \<^verbatim>\<open>if x:\<close> and \<^verbatim>\<open>not x\<close> test it.\<close>

fun truthy :: "cell \<Rightarrow> bool" where
  "truthy CNone = False"
| "truthy (CNum n) = (n \<noteq> 0)"
| "truthy (CStr s) = (s \<noteq> [])"

text \<open>
  \<^verbatim>\<open>str(x)\<close> and the formatting of an f-string field. The decimal rendering of a
  number is a parameter, \<open>str_of_num\<close>.
\<close>

fun py_str :: "(rat \<Rightarrow> string) \<Rightarrow> cell \<Rightarrow> string" where
  "py_str str_of_num CNone = ''None''"
| "py_str str_of_num (CNum n) = str_of_num n"
| "py_str str_of_num (CStr s) = s"

text \<open>
  \<^verbatim>\<open>float(x)\<close>: a TypeError on \<open>None\<close>, a ValueError on a text that is not a number.
  The parser of numeric texts is a parameter, \<open>float_of_str\<close>.
\<close>

fun py_float :: "(string \<Rightarrow> rat option) \<Rightarrow> cell \<Rightarrow> py_error + rat" where
  "py_float float_of_str CNone = Inl TypeError"
| "py_float float_of_str (CNum n) = Inr n"
| "py_float float_of_str (CStr s) =
     (case float_of_str s of None \<Rightarrow> Inl ValueError | Some r \<Rightarrow> Inr r)"

definition is_space :: "char \<Rightarrow> bool" where
  "is_space c = (c \<in> set [CHR 0x09, CHR 0x0A, CHR 0x0B, CHR 0x0C, CHR 0x0D,
                            CHR 0x1C, CHR 0x1D, CHR 0x1E, CHR 0x1F, CHR 0x20])"

definition is_digit :: "char \<Rightarrow> bool" where
  "is_digit c = (c \<in> set ''0123456789'')"

definition upper_char :: "char \<Rightarrow> char" where
  "upper_char c =
     (case map_of (zip ''abcdefghijklmnopqrstuvwxyz'' ''ABCDEFGHIJKLMNOPQRSTUVWXYZ'') c of
        Some u \<Rightarrow> u | None \<Rightarrow> c)"

definition lower_char :: "char \<Rightarrow> char" where
  "lower_char c =
     (case map_of (zip ''ABCDEFGHIJKLMNOPQRSTUVWXYZ'' ''abcdefghijklmnopqrstuvwxyz'') c of
        Some l \<Rightarrow> l | None \<Rightarrow> c)"

definition upper :: "string \<Rightarrow> string" where
  "upper s = map upper_char s"

definition lower :: "string \<Rightarrow> string" where
  "lower s = map lower_char s"

definition strip :: "string \<Rightarrow> string" where
  "strip s = rev (dropWhile is_space (rev (dropWhile is_space s)))"

fun starts_with :: "string \<Rightarrow> string \<Rightarrow> bool" where
  "starts_with s [] = True"
| "starts_with [] (p # ps) = False"
| "starts_with (c # cs) (p # ps) = (c = p \<and> starts_with cs ps)"

text \<open>\<^verbatim>\<open>sub in s\<close> on texts.\<close>

fun contains :: "string \<Rightarrow> string \<Rightarrow> bool" where
  "contains sub [] = (sub = [])"
| "contains sub (c # cs) = (starts_with (c # cs) sub \<or> contains sub cs)"

text \<open>
  \<^verbatim>\<open>s.replace(old, new)\<close> for a non-empty \<open>old\<close>: every occurrence, left to right,
  without overlaps.
\<close>

function replace_all :: "string \<Rightarrow> string \<Rightarrow> string \<Rightarrow> string" where
  "replace_all old new s =
     (if old = [] then s
      else if s = [] then []
      else if starts_with s old then new @ replace_all old new (drop (length old) s)
      else hd s # replace_all old new (tl s))"
  by pat_completeness auto
termination
  by (relation "measure (\<lambda>(old, new, s). length s)") (auto simp: neq_Nil_conv)

declare replace_all.simps [simp del]

section \<open>CatalogMatcher (agents/mapper\_agent.py)\<close>

text \<open>\<^verbatim>\<open>re.sub(r"\(\d+\)", "", text)\<close>: a parenthesis, one or more digits, a parenthesis.\<close>

function sub_paren_digits :: "string \<Rightarrow> string" where
  "sub_paren_digits [] = []"
| "sub_paren_digits (c # cs) =
     (if c = CHR ''('' \<and> takeWhile is_digit cs \<noteq> [] \<and>
         starts_with (dropWhile is_digit cs) '')''
      then sub_paren_digits (tl (dropWhile is_digit cs))
      else c # sub_paren_digits cs)"
  by pat_completeness auto
termination
  by (relation "measure length")
     (auto simp: less_Suc_eq_le intro: order_trans [OF diff_le_self length_dropWhile_le])

text \<open>\<^verbatim>\<open>re.sub(r"\s+", " ", text)\<close>: every run of white space becomes one blank.\<close>

function sub_spaces :: "string \<Rightarrow> string" where
  "sub_spaces [] = []"
| "sub_spaces (c # cs) =
     (if is_space c then CHR '' '' # sub_spaces (dropWhile is_space cs)
      else c # sub_spaces cs)"
  by pat_completeness auto
termination
  by (relation "measure length")
     (auto simp: less_Suc_eq_le length_dropWhile_le)

text \<open>\<^verbatim>\<open>MapperAgent._normalize_model\<close>.\<close>

definition normalize_model :: "string \<Rightarrow> string" where
  "normalize_model text0 =
     (if text0 = [] then []
      else
        let text1 = upper text0;
            text2 = strip (replace_all ''MODEL NO'' [] text1);
            text3 = sub_paren_digits text2;
            text4 = strip (sub_spaces text3)
        in text4)"

text \<open>
  A row of the sheet Line\_Items, in the order of its columns. A later stage adds a
  ninth column, which the readers cut off or ignore.
\<close>

record line_item =
  li_DocNo :: cell
  li_SNo :: cell
  li_Description :: cell
  li_HSN :: cell
  li_Quantity :: cell
  li_Unit :: cell
  li_Rate :: cell
  li_Amount :: cell

text \<open>A row of the master file: model number, product name, SKU, HSN, rate.\<close>

type_synonym master_row = "cell \<times> cell \<times> cell \<times> cell \<times> cell"

record master_entry =
  me_ProductName :: cell
  me_SKU :: cell
  me_HSN :: cell
  me_Rate :: cell

text \<open>The flag columns hold a check mark or a cross.\<close>

datatype flag = Check | Cross

record mapped_row =
  mr_item :: line_item
  mr_MappedModel :: string
  mr_ProductName :: cell
  mr_SKU :: cell
  mr_HSN :: cell
  mr_StandardRate :: cell
  mr_RateMatch :: flag

record unmapped_row =
  ur_item :: line_item
  ur_NormalizedModel :: string

text \<open>The loop that fills \<^verbatim>\<open>master_map\<close>: a later row replaces an earlier one.\<close>

fun build_master_map ::
  "(rat \<Rightarrow> string) \<Rightarrow> (string \<rightharpoonup> master_entry) \<Rightarrow> master_row list \<Rightarrow>
     (string \<rightharpoonup> master_entry)" where
  "build_master_map sn m [] = m"
| "build_master_map sn m ((model_no, prod_name, sku, hsn, rate) # rows) =
     build_master_map sn
       (m(normalize_model (py_str sn model_no) \<mapsto>
            \<lparr>me_ProductName = prod_name, me_SKU = sku, me_HSN = hsn, me_Rate = rate\<rparr>))
       rows"

text \<open>
  One pass of the loop over the line items: the two rows it appends, or the exception
  that \<^verbatim>\<open>float\<close> raises in the branch of a hit.
\<close>

definition map_item ::
  "(rat \<Rightarrow> string) \<Rightarrow> (string \<Rightarrow> rat option) \<Rightarrow> (string \<rightharpoonup> master_entry) \<Rightarrow>
     line_item \<Rightarrow> py_error + (mapped_row \<times> unmapped_row list)" where
  "map_item sn fs master_map item =
     (let norm_model = normalize_model (py_str sn (li_Description item)) in
      case master_map norm_model of
        Some mapped \<Rightarrow>
          (case py_float fs (li_Rate item) of
             Inl e \<Rightarrow> Inl e
           | Inr r \<Rightarrow>
               (case py_float fs (me_Rate mapped) of
                  Inl e \<Rightarrow> Inl e
                | Inr r' \<Rightarrow>
                    Inr (\<lparr>mr_item = item, mr_MappedModel = norm_model,
                           mr_ProductName = me_ProductName mapped, mr_SKU = me_SKU mapped,
                           mr_HSN = me_HSN mapped, mr_StandardRate = me_Rate mapped,
                           mr_RateMatch = (if r = r' then Check else Cross)\<rparr>, [])))
      | None \<Rightarrow>
          Inr (\<lparr>mr_item = item, mr_MappedModel = norm_model,
                 mr_ProductName = CStr ''NOT FOUND'', mr_SKU = CStr ''NOT FOUND'',
                 mr_HSN = CStr ''NOT FOUND'', mr_StandardRate = CStr ''NOT FOUND'',
                 mr_RateMatch = Cross\<rparr>,
               [\<lparr>ur_item = item, ur_NormalizedModel = norm_model\<rparr>]))"

fun map_items ::
  "(rat \<Rightarrow> string) \<Rightarrow> (string \<Rightarrow> rat option) \<Rightarrow> (string \<rightharpoonup> master_entry) \<Rightarrow>
     line_item list \<Rightarrow> py_error + (mapped_row list \<times> unmapped_row list)" where
  "map_items sn fs master_map [] = Inr ([], [])"
| "map_items sn fs master_map (item # items) =
     (case map_item sn fs master_map item of
        Inl e \<Rightarrow> Inl e
      | Inr (m, u) \<Rightarrow>
          (case map_items sn fs master_map items of
             Inl e \<Rightarrow> Inl e
           | Inr (ms, us) \<Rightarrow> Inr (m # ms, u @ us)))"

text \<open>
  \<^verbatim>\<open>MapperAgent.process\<close>, from the rows of the master file and of Line\_Items to the
  rows of Mapped\_Items and Unmapped\_Items (both sheets are made anew in each run).
\<close>

definition mapper_process ::
  "(rat \<Rightarrow> string) \<Rightarrow> (string \<Rightarrow> rat option) \<Rightarrow> master_row list \<Rightarrow> line_item list \<Rightarrow>
     py_error + (mapped_row list \<times> unmapped_row list)" where
  "mapper_process sn fs master_rows items =
     map_items sn fs (build_master_map sn Map.empty master_rows) items"

section \<open>BlockExtractor (agents/logger\_agent.py)\<close>

text \<open>
  The input text is taken as the list of its lines (\<^verbatim>\<open>text.splitlines()\<close>). A line
  closes a block when, stripped, it starts with the validation token.
\<close>

definition is_marker :: "string \<Rightarrow> bool" where
  "is_marker line = starts_with (strip line) ''VALIDATION:''"

text \<open>\<^verbatim>\<open>"\n".join(current)\<close>.\<close>

fun join_lines :: "string list \<Rightarrow> string" where
  "join_lines [] = []"
| "join_lines [l] = l"
| "join_lines (l # ls) = l @ CHR 0x0A # join_lines ls"

text \<open>
  The loop of \<^verbatim>\<open>LoggerAgent._split_invoices\<close>, with its two variables \<open>blocks\<close> and
  \<open>current\<close>.
\<close>

fun split_loop :: "string list \<Rightarrow> string list \<Rightarrow> string list \<Rightarrow> string list" where
  "split_loop blocks current [] = blocks"
| "split_loop blocks current (line # lines) =
     (if is_marker line
      then split_loop (blocks @ [join_lines (current @ [line])]) [] lines
      else split_loop blocks (current @ [line]) lines)"

definition split_invoices :: "string list \<Rightarrow> string list" where
  "split_invoices lines = split_loop [] [] lines"

text \<open>
  A Python dictionary with text keys, as an association list read from the front:
  an update puts the new entries in front of the old ones. A missing key reads as
  \<open>None\<close>, as \<^verbatim>\<open>d.get(k)\<close> does.
\<close>

type_synonym dict = "(string \<times> cell) list"

definition dict_get :: "dict \<Rightarrow> string \<Rightarrow> cell" where
  "dict_get d k = (case map_of d k of Some v \<Rightarrow> v | None \<Rightarrow> CNone)"

definition dict_update :: "dict \<Rightarrow> dict \<Rightarrow> dict" where
  "dict_update d e = e @ d"

text \<open>
  What the regular expressions and the JSON decoder of \<^verbatim>\<open>_parse_invoice\<close> find in a
  block. The matching itself is not modelled: a function from blocks to these results
  is a parameter of the model.
  \<^item> \<open>ex_payload\<close>: the \<^verbatim>\<open>data\<close> member of the decoded payload and its
    \<^verbatim>\<open>json.dumps\<close>; \<open>None\<close> when the block has no payload or decoding it raises;
  \<^item> the six header fields and the vendor name: a text or \<open>None\<close>;
  \<^item> \<open>ex_tax\<close>: groups 2 to 5 of the tax line, as numbers (the last one is optional);
  \<^item> \<open>ex_items\<close>: the line items that the window heuristic accepts.
\<close>

record item_dict =
  it_SNo :: cell
  it_Description :: cell
  it_HSN :: cell
  it_Quantity :: cell
  it_Unit :: cell
  it_Rate :: cell
  it_Amount :: cell

record extraction =
  ex_payload :: "(dict \<times> string) option"
  ex_AckNo :: cell
  ex_EWayBill :: cell
  ex_PlaceOfSupply :: cell
  ex_VehicleNo :: cell
  ex_Transport :: cell
  ex_ValidationFlag :: cell
  ex_VendorName :: cell
  ex_tax :: "(rat \<times> rat \<times> rat \<times> rat option) option"
  ex_items :: "item_dict list"

definition qr_meta_of :: "(dict \<times> string) option \<Rightarrow> dict" where
  "qr_meta_of payload =
     (case payload of
        None \<Rightarrow> []
      | Some (data, raw) \<Rightarrow>
          [(''DocNo'', dict_get data ''DocNo''),
           (''SellerGstin'', dict_get data ''SellerGstin''),
           (''BuyerGstin'', dict_get data ''BuyerGstin''),
           (''DocTyp'', dict_get data ''DocTyp''),
           (''DocDt'', dict_get data ''DocDt''),
           (''TotInvVal'', dict_get data ''TotInvVal''),
           (''ItemCnt'', dict_get data ''ItemCnt''),
           (''MainHsnCode'', dict_get data ''MainHsnCode''),
           (''IRN'', dict_get data ''Irn''),
           (''IrnDt'', dict_get data ''IrnDt''),
           (''RawPayload'', CStr raw)])"

definition tax_entries :: "(rat \<times> rat \<times> rat \<times> rat option) option \<Rightarrow> dict" where
  "tax_entries tax_match =
     (case tax_match of
        None \<Rightarrow> []
      | Some (taxable, cgst, sgst, total_tax) \<Rightarrow>
          [(''TaxableAmount'', CNum taxable),
           (''CGST_Amount'', CNum cgst),
           (''SGST_Amount'', CNum sgst),
           (''TotalTax'',
              CNum (case total_tax of
                      Some t \<Rightarrow> if t \<noteq> 0 then t else cgst + sgst
                    | None \<Rightarrow> cgst + sgst))])"

text \<open>\<^verbatim>\<open>LoggerAgent._parse_invoice\<close>: summary, line items, payload metadata.\<close>

definition parse_invoice ::
  "(string \<Rightarrow> extraction) \<Rightarrow> string \<Rightarrow> dict \<times> item_dict list \<times> dict" where
  "parse_invoice ex block =
     (let e = ex block;
          qr_meta = qr_meta_of (ex_payload e);
          summary1 = dict_update [] qr_meta;
          summary2 = dict_update summary1
            [(''AckNo'', ex_AckNo e),
             (''EWayBill'', ex_EWayBill e),
             (''PlaceOfSupply'', ex_PlaceOfSupply e),
             (''VehicleNo'', ex_VehicleNo e),
             (''Transport'', ex_Transport e),
             (''ValidationFlag'', ex_ValidationFlag e)];
          summary3 = dict_update summary2 [(''VendorName'', ex_VendorName e)];
          summary4 = dict_update summary3 (tax_entries (ex_tax e))
      in (summary4, ex_items e, qr_meta))"

text \<open>
  The store: the data rows of the sheets Invoice\_Summary, Line\_Items and QR\_Meta. A
  row of the first and of the last is the list of its cells. Every row of a sheet is as
  wide as the sheet; a cell beyond the written ones reads as \<open>None\<close>.
\<close>

record store =
  st_summary :: "cell list list"
  st_items :: "line_item list"
  st_qr :: "cell list list"

definition cell_at :: "cell list \<Rightarrow> nat \<Rightarrow> cell" where
  "cell_at row i = (if i < length row then row ! i else CNone)"

text \<open>The key of a stored row, \<^verbatim>\<open>f"{row[2]}_{row[0]}"\<close>, and the key of a summary.\<close>

definition row_key :: "(rat \<Rightarrow> string) \<Rightarrow> cell list \<Rightarrow> string" where
  "row_key sn row = py_str sn (cell_at row 2) @ ''_'' @ py_str sn (cell_at row 0)"

definition comp_key :: "(rat \<Rightarrow> string) \<Rightarrow> dict \<Rightarrow> string" where
  "comp_key sn summary =
     py_str sn (dict_get summary ''SellerGstin'') @ ''_'' @ py_str sn (dict_get summary ''DocNo'')"

definition existing_keys :: "(rat \<Rightarrow> string) \<Rightarrow> store \<Rightarrow> string set" where
  "existing_keys sn st = set (map (row_key sn) (st_summary st))"

definition summary_row :: "dict \<Rightarrow> cell list" where
  "summary_row summary =
     map (dict_get summary)
       [''DocNo'', ''DocDt'', ''SellerGstin'', ''BuyerGstin'', ''IRN'', ''AckNo'',
        ''EWayBill'', ''PlaceOfSupply'', ''Transport'', ''VehicleNo'', ''ItemCnt'',
        ''TotInvVal'', ''TaxableAmount'', ''CGST_Amount'', ''SGST_Amount'', ''TotalTax'',
        ''VendorName'', ''ValidationFlag'']"

definition item_row :: "dict \<Rightarrow> item_dict \<Rightarrow> line_item" where
  "item_row summary item =
     \<lparr>li_DocNo = dict_get summary ''DocNo'', li_SNo = it_SNo item,
      li_Description = it_Description item, li_HSN = it_HSN item,
      li_Quantity = it_Quantity item, li_Unit = it_Unit item,
      li_Rate = it_Rate item, li_Amount = it_Amount item\<rparr>"

definition qr_row :: "dict \<Rightarrow> cell list" where
  "qr_row qr_meta =
     map (dict_get qr_meta)
       [''DocNo'', ''SellerGstin'', ''BuyerGstin'', ''DocTyp'', ''DocDt'', ''TotInvVal'',
        ''ItemCnt'', ''MainHsnCode'', ''IRN'', ''IrnDt'', ''RawPayload'']"

text \<open>
  One pass of the loop of \<^verbatim>\<open>LoggerAgent.process\<close> over the blocks. The state is the
  set \<^verbatim>\<open>existing_keys\<close> and the three sheets.
\<close>

definition log_block ::
  "(string \<Rightarrow> extraction) \<Rightarrow> (rat \<Rightarrow> string) \<Rightarrow> string set \<times> store \<Rightarrow> string \<Rightarrow>
     string set \<times> store" where
  "log_block ex sn ks block =
     (case parse_invoice ex block of
        (summary, items, qr_meta) \<Rightarrow>
          if \<not> truthy (dict_get summary ''DocNo'') \<or> \<not> truthy (dict_get summary ''SellerGstin'')
          then ks
          else if comp_key sn summary \<in> fst ks then ks
          else
            (insert (comp_key sn summary) (fst ks),
             \<lparr>st_summary = st_summary (snd ks) @ [summary_row summary],
              st_items = st_items (snd ks) @ map (item_row summary) items,
              st_qr = st_qr (snd ks) @ (if qr_meta \<noteq> [] then [qr_row qr_meta] else [])\<rparr>))"

fun log_blocks ::
  "(string \<Rightarrow> extraction) \<Rightarrow> (rat \<Rightarrow> string) \<Rightarrow> string set \<times> store \<Rightarrow> string list \<Rightarrow>
     string set \<times> store" where
  "log_blocks ex sn ks [] = ks"
| "log_blocks ex sn ks (block # blocks) = log_blocks ex sn (log_block ex sn ks block) blocks"

text \<open>
  \<^verbatim>\<open>LoggerAgent.process\<close> on an input file that exists: the store after the run.
\<close>

definition logger_process ::
  "(string \<Rightarrow> extraction) \<Rightarrow> (rat \<Rightarrow> string) \<Rightarrow> store \<Rightarrow> string list \<Rightarrow> store" where
  "logger_process ex sn st lines =
     snd (log_blocks ex sn (existing_keys sn st, st) (split_invoices lines))"

text \<open>The summary that \<^verbatim>\<open>process\<close> tests: whether a block is logged at all.\<close>

definition has_identity :: "(string \<Rightarrow> extraction) \<Rightarrow> string \<Rightarrow> bool" where
  "has_identity ex block =
     (truthy (dict_get (fst (parse_invoice ex block)) ''DocNo'') \<and>
      truthy (dict_get (fst (parse_invoice ex block)) ''SellerGstin''))"

text \<open>
  Rows added by a run: every document row has a document number (column 0) and a
  seller id (column 2), every line item carries the document number of one of them, and
  every payload row the document number and the seller id of one of them.
\<close>

definition owned_rows :: "cell list list \<Rightarrow> line_item list \<Rightarrow> cell list list \<Rightarrow> bool" where
  "owned_rows ds its qs =
     ((\<forall>d \<in> set ds. cell_at d 0 \<noteq> CNone \<and> cell_at d 2 \<noteq> CNone \<and>
                      truthy (cell_at d 0) \<and> truthy (cell_at d 2)) \<and>
      (\<forall>i \<in> set its. \<exists>d \<in> set ds. li_DocNo i = cell_at d 0) \<and>
      (\<forall>q \<in> set qs. \<exists>d \<in> set ds. cell_at q 0 = cell_at d 0 \<and> cell_at q 1 = cell_at d 2))"

text \<open>The store that \<^verbatim>\<open>_init_excel\<close> creates: three sheets with their header rows only.\<close>

definition empty_store :: store where
  "empty_store = \<lparr>st_summary = [], st_items = [], st_qr = []\<rparr>"

text \<open>
  A small input for concrete runs: a block has a payload when it starts with
  \<^verbatim>\<open>Doc\<close>, and the five characters after it are its document number.
\<close>

definition sample_ex :: "string \<Rightarrow> extraction" where
  "sample_ex block =
     \<lparr>ex_payload =
        (if starts_with block ''Doc ''
         then Some ([(''DocNo'', CStr (take 5 (drop 4 block))),
                     (''SellerGstin'', CStr ''27ABCDE1234F1Z5''),
                     (''MainHsnCode'', CStr ''94035000''),
                     (''TotInvVal'', CNum 1180)], ''{}'')
         else None),
      ex_AckNo = CNone, ex_EWayBill = CNone, ex_PlaceOfSupply = CNone,
      ex_VehicleNo = CNone, ex_Transport = CNone,
      ex_ValidationFlag = CStr ''VALIDATION: PASS'', ex_VendorName = CStr ''Acme'',
      ex_tax = None,
      ex_items =
        [\<lparr>it_SNo = CNum 1, it_Description = CStr ''Model No ABC-100'', it_HSN = CNum 94035000,
          it_Quantity = CNum 2, it_Unit = CStr ''Pcs.'', it_Rate = CNum 500,
          it_Amount = CNum 1000\<rparr>]\<rparr>"

definition sample_lines :: "string list" where
  "sample_lines =
     [''Doc INV01'', ''VALIDATION: PASS'', ''Doc INV01'', ''  VALIDATION: PASS'',
      ''no payload'', ''VALIDATION: FAIL'']"

text \<open>
  Two terminated blocks whose payloads name different documents with the same key text:
  seller \<^verbatim>\<open>A_B\<close> with document number \<^verbatim>\<open>C\<close>, and seller \<^verbatim>\<open>A\<close> with
  document number \<^verbatim>\<open>B_C\<close>.
\<close>

definition collide_ex :: "string \<Rightarrow> extraction" where
  "collide_ex block =
     \<lparr>ex_payload =
        Some (if starts_with block ''First''
              then [(''DocNo'', CStr ''C''), (''SellerGstin'', CStr ''A_B'')]
              else [(''DocNo'', CStr ''B_C''), (''SellerGstin'', CStr ''A'')], ''{}''),
      ex_AckNo = CNone, ex_EWayBill = CNone, ex_PlaceOfSupply = CNone,
      ex_VehicleNo = CNone, ex_Transport = CNone,
      ex_ValidationFlag = CStr ''VALIDATION: VALID'', ex_VendorName = CNone,
      ex_tax = None, ex_items = []\<rparr>"

definition collide_lines :: "string list" where
  "collide_lines = [''First'', ''VALIDATION: VALID'', ''Second'', ''VALIDATION: VALID'']"

section \<open>TieredRateResolver (agents/gst\_fetcher\_agent.py)\<close>

text \<open>
  An entry of the cache: what \<^verbatim>\<open>data.get("gst_rate")\<close> and
  \<^verbatim>\<open>data.get("description")\<close> read, a number or \<open>None\<close> and a text or \<open>None\<close>
  (the form in which \<^verbatim>\<open>_save_hsn_cache\<close> writes the file).
\<close>

record hsn_entry =
  he_gst_rate :: "rat option"
  he_description :: "string option"

definition HSN_FALLBACK :: "string \<rightharpoonup> hsn_entry" where
  "HSN_FALLBACK =
     map_of
       [(''94035000'', \<lparr>he_gst_rate = Some 18, he_description = Some ''Wooden furniture''\<rparr>),
        (''94036000'', \<lparr>he_gst_rate = Some 12, he_description = Some ''Metal furniture''\<rparr>)]"

text \<open>The cache file: missing, not readable as JSON, or a mapping.\<close>

datatype cache_file = NoFile | Unreadable | Loaded "string \<rightharpoonup> hsn_entry"

text \<open>
  \<^verbatim>\<open>GSTFetcherAgent._load_hsn_cache\<close>: the entries of the file over the fallback table.
\<close>

definition load_hsn_cache :: "cache_file \<Rightarrow> (string \<rightharpoonup> hsn_entry)" where
  "load_hsn_cache f =
     (case f of
        Loaded m \<Rightarrow> HSN_FALLBACK ++ m
      | Unreadable \<Rightarrow> HSN_FALLBACK
      | NoFile \<Rightarrow> HSN_FALLBACK)"

text \<open>
  The answer of the lookup service to one request: the request raises, or a status
  code and the table rows of the page, each the list of the stripped texts of its cells.
\<close>

datatype http_result = RequestFailed | Response nat "string list list"

text \<open>
  The state of the agent: the cache, and the requests sent to the service so far (kept
  to tell whether a call contacts the remote tier). The service is a parameter: its
  answer may depend on the earlier requests.
\<close>

record resolver =
  rs_cache :: "string \<rightharpoonup> hsn_entry"
  rs_requests :: "string list"

type_synonym remote = "string list \<Rightarrow> string \<Rightarrow> http_result"

text \<open>\<^verbatim>\<open>re.search(r"(\d{1,2})", rate_text)\<close>: the first digit and the next one, if any.\<close>

fun first_digits :: "string \<Rightarrow> string option" where
  "first_digits [] = None"
| "first_digits (c # cs) =
     (if is_digit c
      then Some (c # (case cs of [] \<Rightarrow> [] | d # ds \<Rightarrow> if is_digit d then [d] else []))
      else first_digits cs)"

definition digit_val :: "char \<Rightarrow> nat" where
  "digit_val c =
     (case map_of (zip ''0123456789'' [0, 1, 2, 3, 4, 5, 6, 7, 8, 9]) c of
        Some n \<Rightarrow> n | None \<Rightarrow> 0)"

text \<open>\<^verbatim>\<open>int(s)\<close> on a text of digits.\<close>

definition int_of_digits :: "string \<Rightarrow> nat" where
  "int_of_digits s = foldl (\<lambda>n c. 10 * n + digit_val c) 0 s"

text \<open>
  The loop over the table rows: the first row with three cells or more whose first
  cell is the code gives the description and, when its rate cell has a digit, the rate.
\<close>

fun scan_rows :: "string \<Rightarrow> string list list \<Rightarrow> rat option \<times> string option" where
  "scan_rows hsn [] = (None, None)"
| "scan_rows hsn (cols # rows) =
     (if length cols \<ge> 3 \<and> cols ! 0 = hsn
      then
        (if cols ! 2 \<noteq> []
         then (case first_digits (cols ! 2) of
                 Some ds \<Rightarrow> Some (of_nat (int_of_digits ds))
               | None \<Rightarrow> None)
         else None,
         Some (cols ! 1))
      else scan_rows hsn rows)"

definition rate_truthy :: "rat option \<Rightarrow> bool" where
  "rate_truthy gst_rate = (case gst_rate of None \<Rightarrow> False | Some r \<Rightarrow> r \<noteq> 0)"

definition service_url :: "string \<Rightarrow> string" where
  "service_url hsn = ''https://vakilsearch.com/hsn-code/search/'' @ hsn"

text \<open>Step 2 of \<^verbatim>\<open>_fetch_gst_details\<close>: the fallback dictionary.\<close>

definition fallback_tier :: "string \<Rightarrow> rat option \<times> string option \<times> string" where
  "fallback_tier hsn =
     (case HSN_FALLBACK hsn of
        Some data \<Rightarrow> (he_gst_rate data, he_description data, ''Fallback Dictionary'')
      | None \<Rightarrow> (None, None, ''Not Found''))"

text \<open>
  \<^verbatim>\<open>GSTFetcherAgent._fetch_gst_details\<close>: rate, description and source, and the state
  after the call.
\<close>

definition fetch_gst_details ::
  "remote \<Rightarrow> resolver \<Rightarrow> string \<Rightarrow> (rat option \<times> string option \<times> string) \<times> resolver" where
  "fetch_gst_details remote st hsn =
     (case rs_cache st hsn of
        Some data \<Rightarrow> ((he_gst_rate data, he_description data, ''Local Cache''), st)
      | None \<Rightarrow>
          (let url = service_url hsn;
               st1 = st\<lparr>rs_requests := rs_requests st @ [url]\<rparr>
           in case remote (rs_requests st) url of
                RequestFailed \<Rightarrow> (fallback_tier hsn, st1)
              | Response status_code rows \<Rightarrow>
                  if status_code = 200
                  then
                    (case scan_rows hsn rows of
                       (gst_rate, description) \<Rightarrow>
                         if rate_truthy gst_rate
                         then ((gst_rate, description, url),
                               st1\<lparr>rs_cache := (rs_cache st1)
                                      (hsn \<mapsto> \<lparr>he_gst_rate = gst_rate,
                                                he_description = description\<rparr>)\<rparr>)
                         else (fallback_tier hsn, st1))
                  else (fallback_tier hsn, st1)))"

text \<open>A row of the sheet GST\_Fetch, in the order of its columns.\<close>

record gst_row =
  g_DocNo :: cell
  g_DocDt :: cell
  g_HSN :: cell
  g_Description :: cell
  g_GST_Rate :: cell
  g_CGST_Rate :: cell
  g_SGST_Rate :: cell
  g_Source :: cell

definition num_cell :: "rat option \<Rightarrow> cell" where
  "num_cell x = (case x of None \<Rightarrow> CNone | Some r \<Rightarrow> CNum r)"

definition str_cell :: "string option \<Rightarrow> cell" where
  "str_cell x = (case x of None \<Rightarrow> CNone | Some s \<Rightarrow> CStr s)"

text \<open>
  The lookup from document numbers to codes, from the rows of QR\_Meta (column 0 is the
  document number, column 7 the main code).
\<close>

fun build_hsn_lookup ::
  "(rat \<Rightarrow> string) \<Rightarrow> (cell \<rightharpoonup> string) \<Rightarrow> cell list list \<Rightarrow> (cell \<rightharpoonup> string)" where
  "build_hsn_lookup sn m [] = m"
| "build_hsn_lookup sn m (row # rows) =
     build_hsn_lookup sn
       (if truthy (cell_at row 0) \<and> truthy (cell_at row 7)
        then m(cell_at row 0 \<mapsto> py_str sn (cell_at row 7)) else m)
       rows"

definition desc_display :: "string option \<Rightarrow> string option" where
  "desc_display description =
     (case description of
        None \<Rightarrow> None
      | Some d \<Rightarrow> if d \<noteq> [] \<and> length d > 80 then Some (take 80 d @ ''...'') else Some d)"

text \<open>The row that the loop of \<^verbatim>\<open>process\<close> appends for one document.\<close>

definition gst_row_of ::
  "cell \<Rightarrow> cell \<Rightarrow> string \<Rightarrow> rat option \<times> string option \<times> string \<Rightarrow> gst_row" where
  "gst_row_of docno docdt hsn res =
     (case res of
        (gst_rate, description, source) \<Rightarrow>
          \<lparr>g_DocNo = docno, g_DocDt = docdt, g_HSN = CStr hsn,
           g_Description = str_cell (desc_display description),
           g_GST_Rate = num_cell gst_rate,
           g_CGST_Rate =
             (if rate_truthy gst_rate then num_cell (map_option (\<lambda>r. r / 2) gst_rate)
              else CNone),
           g_SGST_Rate =
             (if rate_truthy gst_rate then num_cell (map_option (\<lambda>r. r / 2) gst_rate)
              else CNone),
           g_Source = CStr source\<rparr>)"

fun gst_loop ::
  "remote \<Rightarrow> (cell \<rightharpoonup> string) \<Rightarrow> resolver \<Rightarrow> cell list list \<Rightarrow> gst_row list \<times> resolver" where
  "gst_loop remote hsn_lookup st [] = ([], st)"
| "gst_loop remote hsn_lookup st (row # rows) =
     (if \<not> truthy (cell_at row 0) then gst_loop remote hsn_lookup st rows
      else
        case hsn_lookup (cell_at row 0) of
          None \<Rightarrow> gst_loop remote hsn_lookup st rows
        | Some hsn \<Rightarrow>
            if hsn = [] then gst_loop remote hsn_lookup st rows
            else
              (case fetch_gst_details remote st hsn of
                 (res, st') \<Rightarrow>
                   (case gst_loop remote hsn_lookup st' rows of
                      (out, st'') \<Rightarrow>
                        (gst_row_of (cell_at row 0) (cell_at row 1) hsn res # out, st''))))"

text \<open>
  \<^verbatim>\<open>GSTFetcherAgent\<close>, from its construction to the end of \<^verbatim>\<open>process\<close>: the rows
  of the new sheet GST\_Fetch and the final state, whose cache is written to the file.
\<close>

definition gst_process ::
  "remote \<Rightarrow> (rat \<Rightarrow> string) \<Rightarrow> cache_file \<Rightarrow> cell list list \<Rightarrow> cell list list \<Rightarrow>
     gst_row list \<times> resolver" where
  "gst_process remote sn f summary_rows qr_rows =
     gst_loop remote (build_hsn_lookup sn Map.empty qr_rows)
       \<lparr>rs_cache = load_hsn_cache f, rs_requests = []\<rparr> summary_rows"

text \<open>
  The rate columns of a row of GST\_Fetch: without a rate, or with the rate 0, the
  two halves are empty; with another rate they are half of it; a rate that comes from
  the lookup service is a whole number from 1 to 99.
\<close>

definition halves_ok :: "gst_row \<Rightarrow> bool" where
  "halves_ok row =
     ((g_GST_Rate row = CNone \<or> g_GST_Rate row = CNum 0 \<longrightarrow>
         g_CGST_Rate row = CNone \<and> g_SGST_Rate row = CNone) \<and>
      (\<forall>r. g_GST_Rate row = CNum r \<and> r \<noteq> 0 \<longrightarrow>
         g_CGST_Rate row = CNum (r / 2) \<and> g_SGST_Rate row = CNum (r / 2)) \<and>
      (\<forall>hsn. g_HSN row = CStr hsn \<and> g_Source row = CStr (service_url hsn) \<longrightarrow>
         (\<exists>n. 1 \<le> n \<and> n \<le> 99 \<and> g_GST_Rate row = CNum (of_nat n))))"

text \<open>The cache holds the keys of the fallback table, from the start on.\<close>

definition seeded :: "resolver \<Rightarrow> bool" where
  "seeded st = (\<forall>hsn. HSN_FALLBACK hsn \<noteq> None \<longrightarrow> rs_cache st hsn \<noteq> None)"

text \<open>
  Inputs for concrete runs: a lookup service that knows two codes, one document, and a
  cache file with an entry of rate 0.
\<close>

definition sample_remote :: remote where
  "sample_remote history url =
     (if url = service_url ''1001''
      then Response 200 [[''HSN'', ''Description''], [''1001'', ''Live horses'', ''0%'']]
      else if url = service_url ''7323''
      then Response 200 [[''7323'', ''Table ware'', ''GST 12%'']]
      else RequestFailed)"

definition sample_summary :: "cell list list" where
  "sample_summary = [[CStr ''INV01'', CStr ''01/04/2024'', CStr ''27ABCDE1234F1Z5'']]"

definition sample_qr :: "string \<Rightarrow> cell list list" where
  "sample_qr hsn =
     [[CStr ''INV01'', CStr ''27ABCDE1234F1Z5'', CNone, CNone, CStr ''01/04/2024'', CNum 1180,
       CNum 1, CStr hsn, CNone, CNone, CStr ''{}'']]"

definition zero_rate_file :: cache_file where
  "zero_rate_file =
     Loaded (map_of [(''1001'', \<lparr>he_gst_rate = Some 0, he_description = Some ''Live horses''\<rparr>)])"

section \<open>ReconciliationEngine (agents/reviewer\_agent.py)\<close>

text \<open>
  \<^verbatim>\<open>round(x, 2)\<close>: to the nearest multiple of 0.01, a tie to the even one. Python
  rounds the binary value of the float; here the number is the exact rational.
\<close>

definition py_round2 :: "rat \<Rightarrow> rat" where
  "py_round2 x =
     (let y = x * 100;
          n = \<lfloor>y\<rfloor>;
          r = y - of_int n
      in of_int (if r < 1 / 2 then n
                 else if 1 / 2 < r then n + 1
                 else if even n then n else n + 1) / 100)"

text \<open>The index of the first element that satisfies a test, as a loop that returns it.\<close>

fun first_index :: "('a \<Rightarrow> bool) \<Rightarrow> 'a list \<Rightarrow> nat option" where
  "first_index P [] = None"
| "first_index P (x # xs) = (if P x then Some 0 else map_option Suc (first_index P xs))"

definition header_norm :: "(rat \<Rightarrow> string) \<Rightarrow> cell list \<Rightarrow> string list" where
  "header_norm sn header =
     map (\<lambda>h. if truthy h then lower (strip (py_str sn h)) else []) header"

text \<open>
  The tests of the two loops of \<^verbatim>\<open>_find_totinv_column\<close>. In the source the
  disjunction \<^verbatim>\<open>("inv" in h or "invoice")\<close> ends in a non-empty text, which is true.
\<close>

definition strong_match :: "string \<Rightarrow> bool" where
  "strong_match h =
     (h \<noteq> [] \<and>
      \<not> (contains ''item'' h \<or> contains ''count'' h \<or> contains ''cnt'' h) \<and>
      (contains ''totinv'' h \<or> contains ''tot inv'' h \<or>
       (contains ''total'' h \<and> (contains ''inv'' h \<or> ''invoice'' \<noteq> [])) \<or>
       (contains ''invoice'' h \<and> contains ''total'' h) \<or>
       (contains ''total'' h \<and> contains ''value'' h) \<or>
       contains ''totalinvoice'' h \<or> contains ''totinvval'' h))"

definition loose_match :: "string \<Rightarrow> bool" where
  "loose_match h =
     (\<not> (h = [] \<or> contains ''item'' h) \<and>
      ((contains ''total'' h \<and>
        (contains ''value'' h \<or> contains ''amount'' h \<or> contains ''inv'' h \<or>
         ''invoice'' \<noteq> [])) \<or>
       (contains ''qr'' h \<and> (contains ''total'' h \<or> contains ''tot'' h))))"

text \<open>\<^verbatim>\<open>ReviewerAgent._find_totinv_column\<close>, on the header row of Invoice\_Summary.\<close>

definition find_totinv_column :: "(rat \<Rightarrow> string) \<Rightarrow> cell list \<Rightarrow> nat option" where
  "find_totinv_column sn header =
     (case first_index strong_match (header_norm sn header) of
        Some i \<Rightarrow> Some i
      | None \<Rightarrow>
          (case first_index loose_match (header_norm sn header) of
             Some i \<Rightarrow> Some i
           | None \<Rightarrow> if length (header_norm sn header) \<ge> 12 then Some 11 else None))"

text \<open>\<^verbatim>\<open>s.split()[0]\<close>: the first run of characters that are not white space.\<close>

definition first_token :: "string \<Rightarrow> string option" where
  "first_token s =
     (if dropWhile is_space s = [] then None
      else Some (takeWhile (\<lambda>c. \<not> is_space c) (dropWhile is_space s)))"

text \<open>
  \<^verbatim>\<open>ReviewerAgent._to_float\<close>. The rupee sign is its three bytes in UTF-8.
\<close>

definition to_float :: "(string \<Rightarrow> rat option) \<Rightarrow> cell \<Rightarrow> rat option" where
  "to_float fs val =
     (case val of
        CNone \<Rightarrow> None
      | CNum n \<Rightarrow> Some n
      | CStr t \<Rightarrow>
          (let s = replace_all ''INR'' []
                     (replace_all [CHR 0xE2, CHR 0x82, CHR 0xB9] []
                        (replace_all '','' [] (strip t)))
           in if s = [] then None
              else case fs s of
                     Some r \<Rightarrow> Some r
                   | None \<Rightarrow> (case first_token s of None \<Rightarrow> None | Some w \<Rightarrow> fs w)))"

text \<open>A row of the sheet LineItem\_Errors; its flag column always holds the cross.\<close>

record error_row =
  e_DocNo :: cell
  e_SNo :: cell
  e_Description :: cell
  e_Quantity :: cell
  e_Rate :: cell
  e_StoredAmount :: cell
  e_ComputedAmount :: "rat option"
  e_MatchFlag :: flag

text \<open>A row of the sheet Review\_Report.\<close>

record review_row =
  r_DocNo :: cell
  r_Taxable :: rat
  r_GST_Rate :: "rat option"
  r_CGST_calc :: rat
  r_SGST_calc :: rat
  r_ExpectedTotal :: rat
  r_QR_Total :: rat
  r_Diff :: rat
  r_InvoiceTotal_OK :: flag

text \<open>Step 1: the computed amount, the stored amount and the flag of a line item.\<close>

definition item_computed :: "(string \<Rightarrow> rat option) \<Rightarrow> line_item \<Rightarrow> rat option" where
  "item_computed fs item =
     (case py_float fs (li_Quantity item) of
        Inl e \<Rightarrow> None
      | Inr q \<Rightarrow> (case py_float fs (li_Rate item) of Inl e \<Rightarrow> None | Inr r \<Rightarrow> Some (q * r)))"

definition item_amount :: "(string \<Rightarrow> rat option) \<Rightarrow> line_item \<Rightarrow> rat option" where
  "item_amount fs item =
     (if li_Amount item \<noteq> CNone
      then (case py_float fs (li_Amount item) of Inl e \<Rightarrow> None | Inr a \<Rightarrow> Some a)
      else None)"

definition match_flag :: "rat option \<Rightarrow> rat option \<Rightarrow> flag" where
  "match_flag computed amount_f =
     (if computed \<noteq> None \<and> amount_f \<noteq> None \<and>
         py_round2 (the computed) = py_round2 (the amount_f)
      then Check else Cross)"

definition error_row_of :: "(string \<Rightarrow> rat option) \<Rightarrow> line_item \<Rightarrow> error_row" where
  "error_row_of fs item =
     \<lparr>e_DocNo = li_DocNo item, e_SNo = li_SNo item, e_Description = li_Description item,
      e_Quantity = li_Quantity item, e_Rate = li_Rate item, e_StoredAmount = li_Amount item,
      e_ComputedAmount = item_computed fs item,
      e_MatchFlag = match_flag (item_computed fs item) (item_amount fs item)\<rparr>"

text \<open>
  \<^verbatim>\<open>line_totals\<close>: a dictionary in the order in which its keys were first set. A key
  that is not there is set to 0 before the amount is added.
\<close>

fun totals_add :: "(cell \<times> rat) list \<Rightarrow> cell \<Rightarrow> rat \<Rightarrow> (cell \<times> rat) list" where
  "totals_add [] k x = [(k, 0 + x)]"
| "totals_add ((k', v) # kvs) k x =
     (if k' = k then (k', v + x) # kvs else (k', v) # totals_add kvs k x)"

fun line_item_check ::
  "(string \<Rightarrow> rat option) \<Rightarrow> error_row list \<times> (cell \<times> rat) list \<Rightarrow> line_item list \<Rightarrow>
     error_row list \<times> (cell \<times> rat) list" where
  "line_item_check fs acc [] = acc"
| "line_item_check fs acc (item # items) =
     (if \<not> truthy (li_DocNo item) then line_item_check fs acc items
      else
        line_item_check fs
          (if match_flag (item_computed fs item) (item_amount fs item) = Cross
           then fst acc @ [error_row_of fs item] else fst acc,
           totals_add (snd acc) (li_DocNo item)
             (case item_amount fs item of
                Some a \<Rightarrow> a
              | None \<Rightarrow> (case item_computed fs item of Some c \<Rightarrow> c | None \<Rightarrow> 0)))
          items)"

text \<open>
  Step 2: the rates of a document, from its row of GST\_Fetch. A rate cell that is
  neither empty nor a number makes \<^verbatim>\<open>float\<close> raise, which ends the run.
\<close>

record gst_info =
  gi_HSN :: cell
  gi_Description :: cell
  gi_Source :: cell
  gi_GST :: "rat option"
  gi_CGST :: "rat option"
  gi_SGST :: "rat option"

definition opt_float :: "(string \<Rightarrow> rat option) \<Rightarrow> cell \<Rightarrow> py_error + rat option" where
  "opt_float fs c =
     (if c \<noteq> CNone \<and> c \<noteq> CStr []
      then (case py_float fs c of Inl e \<Rightarrow> Inl e | Inr r \<Rightarrow> Inr (Some r))
      else Inr None)"

fun build_gst_lookup ::
  "(string \<Rightarrow> rat option) \<Rightarrow> (cell \<rightharpoonup> gst_info) \<Rightarrow> gst_row list \<Rightarrow>
     py_error + (cell \<rightharpoonup> gst_info)" where
  "build_gst_lookup fs m [] = Inr m"
| "build_gst_lookup fs m (row # rows) =
     (if truthy (g_DocNo row)
      then
        (case opt_float fs (g_GST_Rate row) of
           Inl e \<Rightarrow> Inl e
         | Inr gst \<Rightarrow>
             (case opt_float fs (g_CGST_Rate row) of
                Inl e \<Rightarrow> Inl e
              | Inr cgst \<Rightarrow>
                  (case opt_float fs (g_SGST_Rate row) of
                     Inl e \<Rightarrow> Inl e
                   | Inr sgst \<Rightarrow>
                       build_gst_lookup fs
                         (m(g_DocNo row \<mapsto>
                              \<lparr>gi_HSN = g_HSN row, gi_Description = g_Description row,
                               gi_Source = g_Source row, gi_GST = gst, gi_CGST = cgst,
                               gi_SGST = sgst\<rparr>))
                         rows)))
      else build_gst_lookup fs m rows)"

text \<open>Step 3: the declared total of a document, from the column found in the header.\<close>

fun build_summary_lookup ::
  "(string \<Rightarrow> rat option) \<Rightarrow> nat option \<Rightarrow> (cell \<rightharpoonup> rat option) \<Rightarrow> cell list list \<Rightarrow>
     (cell \<rightharpoonup> rat option)" where
  "build_summary_lookup fs totinv_idx m [] = m"
| "build_summary_lookup fs totinv_idx m (row # rows) =
     (if \<not> truthy (cell_at row 0) then build_summary_lookup fs totinv_idx m rows
      else
        build_summary_lookup fs totinv_idx
          (m(cell_at row 0 \<mapsto>
               (case totinv_idx of None \<Rightarrow> None | Some i \<Rightarrow> to_float fs (cell_at row i))))
          rows)"

text \<open>
  Step 4, one pass of the loop over \<^verbatim>\<open>line_totals.items()\<close>: the row of
  Review\_Report for a document, or nothing when the document is passed over.
\<close>

definition compare_doc :: "gst_info option \<Rightarrow> rat option \<Rightarrow> cell \<Rightarrow> rat \<Rightarrow> review_row option" where
  "compare_doc gst_info qr_total docno taxable =
     (case gst_info of
        None \<Rightarrow> None
      | Some g \<Rightarrow>
          if gi_CGST g = None \<or> gi_SGST g = None \<or> qr_total = None then None
          else
            (let cgst_calc = taxable * (the (gi_CGST g) / 100);
                 sgst_calc = taxable * (the (gi_SGST g) / 100);
                 expected_total = taxable + cgst_calc + sgst_calc;
                 diff = py_round2 (expected_total - the qr_total)
             in Some \<lparr>r_DocNo = docno, r_Taxable = py_round2 taxable, r_GST_Rate = gi_GST g,
                      r_CGST_calc = py_round2 cgst_calc, r_SGST_calc = py_round2 sgst_calc,
                      r_ExpectedTotal = py_round2 expected_total, r_QR_Total = the qr_total,
                      r_Diff = diff,
                      r_InvoiceTotal_OK = (if \<bar>diff\<bar> < 1 / 100 then Check else Cross)\<rparr>))"

definition qr_total_of :: "(cell \<rightharpoonup> rat option) \<Rightarrow> cell \<Rightarrow> rat option" where
  "qr_total_of summary_lookup docno =
     (case summary_lookup docno of None \<Rightarrow> None | Some v \<Rightarrow> v)"

record review_output =
  ro_errors :: "error_row list"
  ro_reviews :: "review_row list"

text \<open>
  \<^verbatim>\<open>ReviewerAgent.process\<close>, steps 1 to 4: the rows of the two new sheets
  LineItem\_Errors and Review\_Report, or the exception that ends the run. (Step 5 copies
  the description of the rate into a column of Line\_Items and writes to neither sheet.)
\<close>

definition reviewer_process ::
  "(string \<Rightarrow> rat option) \<Rightarrow> (rat \<Rightarrow> string) \<Rightarrow> line_item list \<Rightarrow> gst_row list \<Rightarrow> cell list \<Rightarrow>
     cell list list \<Rightarrow> py_error + review_output" where
  "reviewer_process fs sn items gst_rows header summary_rows =
     (case line_item_check fs ([], []) items of
        (errors, line_totals) \<Rightarrow>
          (case build_gst_lookup fs Map.empty gst_rows of
             Inl e \<Rightarrow> Inl e
           | Inr gst_lookup \<Rightarrow>
               (let summary_lookup =
                      build_summary_lookup fs (find_totinv_column sn header) Map.empty
                        summary_rows
                in Inr \<lparr>ro_errors = errors,
                        ro_reviews =
                          List.map_filter
                            (\<lambda>(docno, taxable).
                               compare_doc (gst_lookup docno) (qr_total_of summary_lookup docno)
                                 docno taxable)
                            line_totals\<rparr>)))"

text \<open>The header row that \<^verbatim>\<open>_init_excel\<close> writes to Invoice\_Summary.\<close>

definition summary_header :: "cell list" where
  "summary_header =
     map CStr
       [''DocNo'', ''DocDt'', ''SellerGstin'', ''BuyerGstin'', ''IRN'', ''AckNo'',
        ''EWayBill'', ''PlaceOfSupply'', ''Transport'', ''VehicleNo'', ''ItemCnt(QR)'',
        ''TotInvVal(QR)'', ''TaxableAmount'', ''CGST_Amount'', ''SGST_Amount'', ''TotalTax'',
        ''VendorName'', ''ValidationFlag'']"

text \<open>
  The taxable total of a document as Step 1 accumulates it: over the line items of the
  document, the stored amount when it is a number, else the computed amount, else 0.
\<close>

definition item_value :: "(string \<Rightarrow> rat option) \<Rightarrow> line_item \<Rightarrow> rat" where
  "item_value fs item =
     (case item_amount fs item of
        Some a \<Rightarrow> a
      | None \<Rightarrow> (case item_computed fs item of Some c \<Rightarrow> c | None \<Rightarrow> 0))"

definition taxable_of :: "(string \<Rightarrow> rat option) \<Rightarrow> line_item list \<Rightarrow> cell \<Rightarrow> rat" where
  "taxable_of fs items docno =
     sum_list (map (item_value fs) (filter (\<lambda>item. li_DocNo item = docno) items))"

text \<open>
  Inputs for concrete runs: a line item of quantity 2 and rate 150 with a given stored
  amount, and the sheets of one document of taxable total 1000 at 9 and 9 percent.
\<close>

definition sample_line :: "cell \<Rightarrow> line_item" where
  "sample_line amount =
     \<lparr>li_DocNo = CStr ''INV01'', li_SNo = CNum 1, li_Description = CStr ''Model No ABC-100'',
      li_HSN = CNum 94035000, li_Quantity = CNum 2, li_Unit = CStr ''Pcs.'',
      li_Rate = CNum 150, li_Amount = amount\<rparr>"

definition sample_gst_rows :: "gst_row list" where
  "sample_gst_rows =
     [\<lparr>g_DocNo = CStr ''INV01'', g_DocDt = CNone, g_HSN = CStr ''94035000'',
       g_Description = CStr ''Wooden furniture'', g_GST_Rate = CNum 18, g_CGST_Rate = CNum 9,
       g_SGST_Rate = CNum 9, g_Source = CStr ''Local Cache''\<rparr>]"

definition sample_summary_rows :: "cell list list" where
  "sample_summary_rows =
     [[CStr ''INV01'', CNone, CStr ''27ABCDE1234F1Z5'', CNone, CNone, CNone, CNone, CNone,
       CNone, CNone, CNone, CNum 1180, CNone, CNone, CNone, CNone, CStr ''Acme'',
       CStr ''VALIDATION: PASS'']]"

definition sample_items :: "line_item list" where
  "sample_items =
     [\<lparr>li_DocNo = CStr ''INV01'', li_SNo = CNum 1, li_Description = CStr ''Model No ABC-100'',
       li_HSN = CNum 94035000, li_Quantity = CNum 2, li_Unit = CStr ''Pcs.'',
       li_Rate = CNum 500, li_Amount = CNum 1000\<rparr>]"

definition sample_review_out :: review_output where
  "sample_review_out =
     \<lparr>ro_errors = [],
      ro_reviews =
        [\<lparr>r_DocNo = CStr ''INV01'', r_Taxable = 1000, r_GST_Rate = Some 18,
          r_CGST_calc = 90, r_SGST_calc = 90, r_ExpectedTotal = 1180, r_QR_Total = 1180,
          r_Diff = 0, r_InvoiceTotal_OK = Check\<rparr>]\<rparr>"

section \<open>Properties of CatalogMatcher\<close>

lemma map_items_empty_catalog:
  "map_items sn fs Map.empty items =
     Inr (map (\<lambda>item.
                 \<lparr>mr_item = item,
                  mr_MappedModel = normalize_model (py_str sn (li_Description item)),
                  mr_ProductName = CStr ''NOT FOUND'', mr_SKU = CStr ''NOT FOUND'',
                  mr_HSN = CStr ''NOT FOUND'', mr_StandardRate = CStr ''NOT FOUND'',
                  mr_RateMatch = Cross\<rparr>) items,
          map (\<lambda>item.
                 \<lparr>ur_item = item,
                  ur_NormalizedModel = normalize_model (py_str sn (li_Description item))\<rparr>)
              items)"
  by (induction items) (simp_all add: map_item_def Let_def)

text \<open>
  C5: the example of the specification. \<^verbatim>\<open>_normalize_model\<close> removes the label
  \<^verbatim>\<open>MODEL NO\<close> and leaves the colon that follows it: the description is
  normalized to \<^verbatim>\<open>: ABC-100\<close> and not to \<^verbatim>\<open>ABC-100\<close>, the result for the bare
  model number, so the two do not match.
\<close>

theorem normalize_model_keeps_colon:
  "normalize_model ''Model No: ABC-100 (73239920)'' = '': ABC-100'' \<and>
   normalize_model ''ABC-100'' = ''ABC-100''"
  by (simp add: normalize_model_def upper_def upper_char_def strip_def is_space_def
      is_digit_def replace_all.simps)

text \<open>
  C8: with an empty catalog (a master file without rows) the matcher raises nothing
  and writes, for every line item, one row of Mapped\_Items whose four catalog columns
  hold \<^verbatim>\<open>NOT FOUND\<close> and one row of Unmapped\_Items with the normalized key.
\<close>

theorem mapper_process_empty_catalog:
  "mapper_process sn fs [] items =
     Inr (map (\<lambda>item.
                 \<lparr>mr_item = item,
                  mr_MappedModel = normalize_model (py_str sn (li_Description item)),
                  mr_ProductName = CStr ''NOT FOUND'', mr_SKU = CStr ''NOT FOUND'',
                  mr_HSN = CStr ''NOT FOUND'', mr_StandardRate = CStr ''NOT FOUND'',
                  mr_RateMatch = Cross\<rparr>) items,
          map (\<lambda>item.
                 \<lparr>ur_item = item,
                  ur_NormalizedModel = normalize_model (py_str sn (li_Description item))\<rparr>)
              items)"
  unfolding mapper_process_def build_master_map.simps by (rule map_items_empty_catalog)

section \<open>Properties of BlockExtractor\<close>

lemma split_loop_no_marker:
  "\<forall>l \<in> set tail. \<not> is_marker l \<Longrightarrow> split_loop blocks current tail = blocks"
  by (induction tail arbitrary: current) simp_all

lemma split_loop_append:
  "\<forall>l \<in> set tail. \<not> is_marker l \<Longrightarrow>
     split_loop blocks current (lines @ tail) = split_loop blocks current lines"
  by (induction lines arbitrary: blocks current) (simp_all add: split_loop_no_marker)

lemma row_key_summary_row: "row_key sn (summary_row summary) = comp_key sn summary"
  by (simp add: row_key_def comp_key_def summary_row_def cell_at_def)

lemma log_block_keys:
  "fst ks = set (map (row_key sn) (st_summary (snd ks))) \<Longrightarrow>
   fst (log_block ex sn ks b) = set (map (row_key sn) (st_summary (snd (log_block ex sn ks b))))"
  by (auto simp: log_block_def row_key_summary_row split: prod.splits)

lemma log_blocks_keys:
  "fst ks = set (map (row_key sn) (st_summary (snd ks))) \<Longrightarrow>
   fst (log_blocks ex sn ks bs) = set (map (row_key sn) (st_summary (snd (log_blocks ex sn ks bs))))"
  by (induction bs arbitrary: ks) (simp_all add: log_block_keys)

lemma log_block_mono: "fst ks \<subseteq> fst (log_block ex sn ks b)"
  by (auto simp: log_block_def split: prod.splits)

lemma log_blocks_mono: "fst ks \<subseteq> fst (log_blocks ex sn ks bs)"
proof (induction bs arbitrary: ks)
  case Nil
  show ?case by simp
next
  case (Cons b bs)
  have "fst ks \<subseteq> fst (log_block ex sn ks b)" by (rule log_block_mono)
  also have "\<dots> \<subseteq> fst (log_blocks ex sn (log_block ex sn ks b) bs)" by (rule Cons.IH)
  finally show ?case by simp
qed

lemma log_block_key_in:
  "has_identity ex b \<Longrightarrow> comp_key sn (fst (parse_invoice ex b)) \<in> fst (log_block ex sn ks b)"
  by (auto simp: log_block_def has_identity_def split: prod.splits)

lemma log_blocks_key_in:
  "b \<in> set bs \<Longrightarrow> has_identity ex b \<Longrightarrow>
     comp_key sn (fst (parse_invoice ex b)) \<in> fst (log_blocks ex sn ks bs)"
proof (induction bs arbitrary: ks)
  case Nil
  then show ?case by simp
next
  case (Cons a bs)
  show ?case
  proof (cases "b = a")
    case True
    with Cons.prems have "comp_key sn (fst (parse_invoice ex b)) \<in> fst (log_block ex sn ks a)"
      by (simp add: log_block_key_in)
    then show ?thesis using log_blocks_mono [of "log_block ex sn ks a" ex sn bs] by auto
  next
    case False
    with Cons show ?thesis by simp
  qed
qed

lemma log_block_skip:
  "(has_identity ex b \<longrightarrow> comp_key sn (fst (parse_invoice ex b)) \<in> fst ks) \<Longrightarrow>
     log_block ex sn ks b = ks"
  by (auto simp: log_block_def has_identity_def split: prod.splits)

lemma log_blocks_skip:
  "\<forall>b \<in> set bs. has_identity ex b \<longrightarrow> comp_key sn (fst (parse_invoice ex b)) \<in> fst ks \<Longrightarrow>
     log_blocks ex sn ks bs = ks"
  by (induction bs) (simp_all add: log_block_skip)

lemma log_blocks_again:
  "log_blocks ex sn (log_blocks ex sn ks bs) bs = log_blocks ex sn ks bs"
  by (rule log_blocks_skip) (simp add: log_blocks_key_in)

lemma logger_process_twice:
  "logger_process ex sn (logger_process ex sn st lines) lines = logger_process ex sn st lines"
proof -
  let ?ks = "log_blocks ex sn (existing_keys sn st, st) (split_invoices lines)"
  have "fst ?ks = existing_keys sn (snd ?ks)"
    unfolding existing_keys_def by (rule log_blocks_keys) (simp add: existing_keys_def)
  then have "(existing_keys sn (snd ?ks), snd ?ks) = ?ks"
    by (metis prod.collapse)
  then show ?thesis
    by (simp add: logger_process_def log_blocks_again)
qed

lemma log_block_distinct:
  "fst ks = set (map (row_key sn) (st_summary (snd ks))) \<Longrightarrow>
   distinct (map (row_key sn) (st_summary (snd ks))) \<Longrightarrow>
   distinct (map (row_key sn) (st_summary (snd (log_block ex sn ks b))))"
  by (auto simp: log_block_def row_key_summary_row split: prod.splits)

lemma log_blocks_distinct:
  "fst ks = set (map (row_key sn) (st_summary (snd ks))) \<Longrightarrow>
   distinct (map (row_key sn) (st_summary (snd ks))) \<Longrightarrow>
   distinct (map (row_key sn) (st_summary (snd (log_blocks ex sn ks bs))))"
  by (induction bs arbitrary: ks) (simp_all add: log_block_distinct log_block_keys)

lemma distinct_filter_one:
  "distinct (map f xs) \<Longrightarrow> k \<in> f ` set xs \<Longrightarrow> length (filter (\<lambda>x. f x = k) xs) = 1"
proof (induction xs)
  case Nil
  then show ?case by simp
next
  case (Cons x xs)
  show ?case
  proof (cases "f x = k")
    case True
    with Cons.prems have "k \<notin> f ` set xs" by simp
    then have "\<forall>y \<in> set xs. f y \<noteq> k" by blast
    then have "filter (\<lambda>x. f x = k) xs = []" by (simp add: filter_empty_conv)
    with True show ?thesis by simp
  next
    case False
    with Cons show ?thesis by auto
  qed
qed

lemma owned_rows_Nil: "owned_rows [] [] []"
  by (simp add: owned_rows_def)

lemma owned_rows_append:
  "owned_rows ds its qs \<Longrightarrow> owned_rows ds' its' qs' \<Longrightarrow>
     owned_rows (ds @ ds') (its @ its') (qs @ qs')"
  unfolding owned_rows_def by (simp add: ball_Un) blast

lemma parse_invoice_identity:
  "parse_invoice ex b = (summary, items, qr_meta) \<Longrightarrow>
     dict_get summary ''DocNo'' = dict_get qr_meta ''DocNo'' \<and>
     dict_get summary ''SellerGstin'' = dict_get qr_meta ''SellerGstin''"
  by (auto simp: parse_invoice_def Let_def dict_update_def dict_get_def tax_entries_def
      split: option.splits)

lemma summary_row_cells:
  "cell_at (summary_row summary) 0 = dict_get summary ''DocNo''"
  "cell_at (summary_row summary) 2 = dict_get summary ''SellerGstin''"
  by (simp_all add: summary_row_def cell_at_def)

lemma qr_row_cells:
  "cell_at (qr_row qr_meta) 0 = dict_get qr_meta ''DocNo''"
  "cell_at (qr_row qr_meta) 1 = dict_get qr_meta ''SellerGstin''"
  "cell_at (qr_row qr_meta) (Suc 0) = dict_get qr_meta ''SellerGstin''"
  by (simp_all add: qr_row_def cell_at_def)

lemma log_block_inserts:
  "\<exists>ds its qs.
     st_summary (snd (log_block ex sn ks b)) = st_summary (snd ks) @ ds \<and>
     st_items (snd (log_block ex sn ks b)) = st_items (snd ks) @ its \<and>
     st_qr (snd (log_block ex sn ks b)) = st_qr (snd ks) @ qs \<and>
     owned_rows ds its qs"
proof (cases "parse_invoice ex b")
  case (fields summary items qr_meta)
  note ident = parse_invoice_identity [OF fields]
  show ?thesis
  proof (cases "has_identity ex b \<and> comp_key sn summary \<notin> fst ks")
    case False
    then have "log_block ex sn ks b = ks"
      using fields by (auto simp: log_block_def has_identity_def)
    then show ?thesis using owned_rows_Nil by fastforce
  next
    case True
    let ?ds = "[summary_row summary]"
    let ?its = "map (item_row summary) items"
    let ?qs = "if qr_meta \<noteq> [] then [qr_row qr_meta] else []"
    from True fields have snd_eq: "snd (log_block ex sn ks b) =
      \<lparr>st_summary = st_summary (snd ks) @ ?ds, st_items = st_items (snd ks) @ ?its,
       st_qr = st_qr (snd ks) @ ?qs\<rparr>"
      by (auto simp: log_block_def has_identity_def)
    from True fields have "truthy (dict_get summary ''DocNo'')"
      and "truthy (dict_get summary ''SellerGstin'')"
      by (simp_all add: has_identity_def)
    then have "owned_rows ?ds ?its ?qs"
      using ident by (auto simp: owned_rows_def summary_row_cells qr_row_cells item_row_def)
    with snd_eq show ?thesis by (intro exI [of _ ?ds] exI [of _ ?its] exI [of _ ?qs]) simp
  qed
qed

lemma log_blocks_inserts:
  "\<exists>ds its qs.
     st_summary (snd (log_blocks ex sn ks bs)) = st_summary (snd ks) @ ds \<and>
     st_items (snd (log_blocks ex sn ks bs)) = st_items (snd ks) @ its \<and>
     st_qr (snd (log_blocks ex sn ks bs)) = st_qr (snd ks) @ qs \<and>
     owned_rows ds its qs"
proof (induction bs arbitrary: ks)
  case Nil
  show ?case using owned_rows_Nil by fastforce
next
  case (Cons b bs)
  obtain ds its qs where one:
    "st_summary (snd (log_block ex sn ks b)) = st_summary (snd ks) @ ds"
    "st_items (snd (log_block ex sn ks b)) = st_items (snd ks) @ its"
    "st_qr (snd (log_block ex sn ks b)) = st_qr (snd ks) @ qs"
    "owned_rows ds its qs"
    using log_block_inserts [of ex sn ks b] by blast
  obtain ds' its' qs' where more:
    "st_summary (snd (log_blocks ex sn (log_block ex sn ks b) bs)) =
       st_summary (snd (log_block ex sn ks b)) @ ds'"
    "st_items (snd (log_blocks ex sn (log_block ex sn ks b) bs)) =
       st_items (snd (log_block ex sn ks b)) @ its'"
    "st_qr (snd (log_blocks ex sn (log_block ex sn ks b) bs)) =
       st_qr (snd (log_block ex sn ks b)) @ qs'"
    "owned_rows ds' its' qs'"
    using Cons.IH [of "log_block ex sn ks b"] by blast
  show ?case
    using one more owned_rows_append [OF one(4) more(4)]
    by (intro exI [of _ "ds @ ds'"] exI [of _ "its @ its'"] exI [of _ "qs @ qs'"]) simp
qed


lemma sample_split:
  "split_invoices sample_lines =
     [''Doc INV01'' @ [CHR 0x0A] @ ''VALIDATION: PASS'',
      ''Doc INV01'' @ [CHR 0x0A] @ ''  VALIDATION: PASS'',
      ''no payload'' @ [CHR 0x0A] @ ''VALIDATION: FAIL'']"
  by (simp add: split_invoices_def sample_lines_def is_marker_def strip_def is_space_def)

lemma sample_run:
  "logger_process sample_ex (\<lambda>n. []) empty_store sample_lines =
     \<lparr>st_summary =
        [[CStr ''INV01'', CNone, CStr ''27ABCDE1234F1Z5'', CNone, CNone, CNone, CNone, CNone,
          CNone, CNone, CNone, CNum 1180, CNone, CNone, CNone, CNone, CStr ''Acme'',
          CStr ''VALIDATION: PASS'']],
      st_items =
        [\<lparr>li_DocNo = CStr ''INV01'', li_SNo = CNum 1,
          li_Description = CStr ''Model No ABC-100'', li_HSN = CNum 94035000,
          li_Quantity = CNum 2, li_Unit = CStr ''Pcs.'', li_Rate = CNum 500,
          li_Amount = CNum 1000\<rparr>],
      st_qr =
        [[CStr ''INV01'', CStr ''27ABCDE1234F1Z5'', CNone, CNone, CNone, CNum 1180, CNone,
          CStr ''94035000'', CNone, CNone, CStr ''{}'']]\<rparr>"
  by (simp add: logger_process_def sample_split existing_keys_def empty_store_def
      log_block_def parse_invoice_def sample_ex_def qr_meta_of_def dict_get_def
      dict_update_def tax_entries_def comp_key_def summary_row_def item_row_def qr_row_def
      Let_def)

text \<open>
  What the key lookup gives. A second run on the same lines changes nothing, whatever
  the store was before the first run. From a store without duplicate keys (the new
  store, for one), no two document rows of the result have the same pair of seller id
  and document number, and every terminated block with a document number and a seller
  id has exactly one document row under its key text. A block whose key text is in the
  set already is passed over.
\<close>

theorem logger_process_idempotent:
  assumes "distinct (map (row_key sn) (st_summary st))"
  shows "logger_process ex sn (logger_process ex sn st lines) lines =
           logger_process ex sn st lines \<and>
         distinct (map (\<lambda>row. (cell_at row 2, cell_at row 0))
                     (st_summary (logger_process ex sn st lines))) \<and>
         (\<forall>b \<in> set (split_invoices lines). has_identity ex b \<longrightarrow>
            length (filter (\<lambda>row. row_key sn row = comp_key sn (fst (parse_invoice ex b)))
                      (st_summary (logger_process ex sn st lines))) = 1) \<and>
         (comp_key sn (fst (parse_invoice ex b')) \<in> fst ks \<longrightarrow> log_block ex sn ks b' = ks)"
proof -
  let ?ks = "log_blocks ex sn (existing_keys sn st, st) (split_invoices lines)"
  let ?rows = "st_summary (logger_process ex sn st lines)"
  have start: "fst (existing_keys sn st, st) =
      set (map (row_key sn) (st_summary (snd (existing_keys sn st, st))))"
    by (simp add: existing_keys_def)
  have keys: "fst ?ks = set (map (row_key sn) ?rows)"
    unfolding logger_process_def by (rule log_blocks_keys [OF start])
  have dist: "distinct (map (row_key sn) ?rows)"
    unfolding logger_process_def using assms by (intro log_blocks_distinct [OF start]) simp
  have eq: "map (row_key sn) ?rows =
      map (\<lambda>(s, d). py_str sn s @ ''_'' @ py_str sn d)
        (map (\<lambda>row. (cell_at row 2, cell_at row 0)) ?rows)"
    by (simp add: row_key_def)
  from dist have "distinct (map (\<lambda>(s, d). py_str sn s @ ''_'' @ py_str sn d)
      (map (\<lambda>row. (cell_at row 2, cell_at row 0)) ?rows))"
    unfolding eq .
  then have "distinct (map (\<lambda>row. (cell_at row 2, cell_at row 0)) ?rows) \<and>
      inj_on (\<lambda>(s, d). py_str sn s @ ''_'' @ py_str sn d)
        (set (map (\<lambda>row. (cell_at row 2, cell_at row 0)) ?rows))"
    by (simp only: distinct_map)
  then have pairs: "distinct (map (\<lambda>row. (cell_at row 2, cell_at row 0)) ?rows)"
    by (rule conjunct1)
  have one: "length (filter (\<lambda>row. row_key sn row = comp_key sn (fst (parse_invoice ex b)))
      ?rows) = 1" if "b \<in> set (split_invoices lines)" and "has_identity ex b" for b
  proof -
    from that have "comp_key sn (fst (parse_invoice ex b)) \<in> fst ?ks"
      by (rule log_blocks_key_in)
    with keys have "comp_key sn (fst (parse_invoice ex b)) \<in> row_key sn ` set ?rows"
      by simp
    with dist show ?thesis by (rule distinct_filter_one)
  qed
  show ?thesis
  proof (intro conjI ballI impI)
    show "logger_process ex sn (logger_process ex sn st lines) lines =
        logger_process ex sn st lines"
      by (rule logger_process_twice)
    show "distinct (map (\<lambda>row. (cell_at row 2, cell_at row 0)) ?rows)"
      by (rule pairs)
    show "length (filter (\<lambda>row. row_key sn row = comp_key sn (fst (parse_invoice ex b)))
        ?rows) = 1" if "b \<in> set (split_invoices lines)" and "has_identity ex b" for b
      using that by (rule one)
    show "log_block ex sn ks b' = ks" if "comp_key sn (fst (parse_invoice ex b')) \<in> fst ks"
      using that by (simp add: log_block_skip)
  qed
qed

theorem logger_process_idempotent_witness:
  "distinct (map (row_key (\<lambda>n. [])) (st_summary empty_store)) \<and>
   logger_process sample_ex (\<lambda>n. [])
     (logger_process sample_ex (\<lambda>n. []) empty_store sample_lines) sample_lines =
     logger_process sample_ex (\<lambda>n. []) empty_store sample_lines \<and>
   length (st_summary (logger_process sample_ex (\<lambda>n. []) empty_store sample_lines)) = 1"
proof -
  have h: "distinct (map (row_key (\<lambda>n. [])) (st_summary empty_store))"
    by (simp add: empty_store_def)
  note t = logger_process_idempotent [OF h, where ex = sample_ex and lines = sample_lines]
  from t have "logger_process sample_ex (\<lambda>n. [])
      (logger_process sample_ex (\<lambda>n. []) empty_store sample_lines) sample_lines =
      logger_process sample_ex (\<lambda>n. []) empty_store sample_lines"
    by (rule conjunct1)
  with h show ?thesis by (simp add: sample_run)
qed

lemma collide_split:
  "split_invoices collide_lines =
     [''First'' @ [CHR 0x0A] @ ''VALIDATION: VALID'',
      ''Second'' @ [CHR 0x0A] @ ''VALIDATION: VALID'']"
  by (simp add: split_invoices_def collide_lines_def is_marker_def strip_def is_space_def)

text \<open>
  C1: two documents with one key text. The documents of the two blocks
  differ (seller \<^verbatim>\<open>A_B\<close>, number \<^verbatim>\<open>C\<close>; seller \<^verbatim>\<open>A\<close>, number
  \<^verbatim>\<open>B_C\<close>), but \<^verbatim>\<open>process\<close> compares the joined text
  \<^verbatim>\<open>A_B_C\<close>: from the new store it logs the first block, passes over the second as
  a duplicate, and the second document has no row, where the specification asks for
  exactly one row for every pair of seller id and document number.
\<close>

theorem key_text_collision_drops_document:
  "split_invoices collide_lines =
     [''First'' @ [CHR 0x0A] @ ''VALIDATION: VALID'',
      ''Second'' @ [CHR 0x0A] @ ''VALIDATION: VALID''] \<and>
   dict_get (fst (parse_invoice collide_ex (''First'' @ [CHR 0x0A] @ ''VALIDATION: VALID'')))
     ''SellerGstin'' = CStr ''A_B'' \<and>
   dict_get (fst (parse_invoice collide_ex (''First'' @ [CHR 0x0A] @ ''VALIDATION: VALID'')))
     ''DocNo'' = CStr ''C'' \<and>
   dict_get (fst (parse_invoice collide_ex (''Second'' @ [CHR 0x0A] @ ''VALIDATION: VALID'')))
     ''SellerGstin'' = CStr ''A'' \<and>
   dict_get (fst (parse_invoice collide_ex (''Second'' @ [CHR 0x0A] @ ''VALIDATION: VALID'')))
     ''DocNo'' = CStr ''B_C'' \<and>
   map (\<lambda>row. (cell_at row 2, cell_at row 0))
     (st_summary (logger_process collide_ex (\<lambda>n. []) empty_store collide_lines)) =
     [(CStr ''A_B'', CStr ''C'')] \<and>
   filter (\<lambda>row. cell_at row 2 = CStr ''A'' \<and> cell_at row 0 = CStr ''B_C'')
     (st_summary (logger_process collide_ex (\<lambda>n. []) empty_store collide_lines)) = []"
  by (simp add: collide_split logger_process_def existing_keys_def empty_store_def
      log_block_def parse_invoice_def collide_ex_def qr_meta_of_def dict_get_def
      dict_update_def tax_entries_def comp_key_def summary_row_def cell_at_def Let_def)

text \<open>
  C6: lines after the last validation line form no block and add no row to any sheet.
  In particular a text without a validation line has no block and leaves the store as
  it was.
\<close>

theorem unterminated_tail_dropped:
  assumes "\<forall>l \<in> set tail. \<not> is_marker l"
  shows "split_invoices (lines @ tail) = split_invoices lines \<and>
         logger_process ex sn st (lines @ tail) = logger_process ex sn st lines \<and>
         split_invoices tail = [] \<and>
         logger_process ex sn st tail = st"
proof -
  have a: "split_invoices (lines @ tail) = split_invoices lines"
    unfolding split_invoices_def using assms by (rule split_loop_append)
  have b: "split_invoices tail = []"
    unfolding split_invoices_def using assms by (rule split_loop_no_marker)
  from a b show ?thesis by (simp add: logger_process_def)
qed

theorem unterminated_tail_dropped_witness:
  "\<not> is_marker ''Doc INV02'' \<and>
   split_invoices (sample_lines @ [''Doc INV02'']) = split_invoices sample_lines \<and>
   logger_process sample_ex (\<lambda>n. []) empty_store (sample_lines @ [''Doc INV02'']) =
     logger_process sample_ex (\<lambda>n. []) empty_store sample_lines \<and>
   logger_process sample_ex (\<lambda>n. []) empty_store [''Doc INV02''] = empty_store"
proof -
  have h: "\<not> is_marker ''Doc INV02''"
    by (simp add: is_marker_def strip_def is_space_def)
  then have "\<forall>l \<in> set [''Doc INV02'']. \<not> is_marker l" by simp
  from unterminated_tail_dropped [OF this] h show ?thesis by blast
qed

text \<open>
  C9: the rows that a run appends. Every appended document row has a document number
  and a seller id that are not \<open>None\<close> (and not empty); every appended line item carries
  the document number of an appended document row, and every appended payload row its
  document number and seller id. A block whose extraction has no document number or no
  seller id changes neither the key set nor any sheet.
\<close>

theorem logged_rows_have_identity:
  "(\<exists>ds its qs.
      st_summary (logger_process ex sn st lines) = st_summary st @ ds \<and>
      st_items (logger_process ex sn st lines) = st_items st @ its \<and>
      st_qr (logger_process ex sn st lines) = st_qr st @ qs \<and>
      (\<forall>d \<in> set ds. cell_at d 0 \<noteq> CNone \<and> cell_at d 2 \<noteq> CNone \<and>
                       truthy (cell_at d 0) \<and> truthy (cell_at d 2)) \<and>
      (\<forall>i \<in> set its. \<exists>d \<in> set ds. li_DocNo i = cell_at d 0) \<and>
      (\<forall>q \<in> set qs. \<exists>d \<in> set ds. cell_at q 0 = cell_at d 0 \<and> cell_at q 1 = cell_at d 2)) \<and>
   (\<not> has_identity ex b \<longrightarrow> log_block ex sn ks b = ks)"
proof -
  have "\<not> has_identity ex b \<longrightarrow> log_block ex sn ks b = ks"
    by (simp add: log_block_skip)
  moreover have "\<exists>ds its qs.
      st_summary (logger_process ex sn st lines) = st_summary st @ ds \<and>
      st_items (logger_process ex sn st lines) = st_items st @ its \<and>
      st_qr (logger_process ex sn st lines) = st_qr st @ qs \<and>
      owned_rows ds its qs"
    using log_blocks_inserts [of ex sn "(existing_keys sn st, st)" "split_invoices lines"]
    by (simp add: logger_process_def)
  ultimately show ?thesis unfolding owned_rows_def by blast
qed

theorem logged_rows_have_identity_witness:
  "\<not> has_identity sample_ex ''no payload'' \<and>
   log_block sample_ex (\<lambda>n. []) ({}, empty_store) ''no payload'' = ({}, empty_store) \<and>
   (\<exists>ds its qs.
      st_summary (logger_process sample_ex (\<lambda>n. []) empty_store sample_lines) = ds \<and>
      st_items (logger_process sample_ex (\<lambda>n. []) empty_store sample_lines) = its \<and>
      st_qr (logger_process sample_ex (\<lambda>n. []) empty_store sample_lines) = qs \<and>
      length ds = 1 \<and> owned_rows ds its qs)"
proof -
  have h: "\<not> has_identity sample_ex ''no payload''"
    by (simp add: has_identity_def parse_invoice_def sample_ex_def qr_meta_of_def
        dict_get_def dict_update_def tax_entries_def Let_def)
  note t = logged_rows_have_identity [of sample_ex "\<lambda>n. []" empty_store sample_lines
      "''no payload''" "({}, empty_store)"]
  from t h have skip: "log_block sample_ex (\<lambda>n. []) ({}, empty_store) ''no payload'' =
      ({}, empty_store)"
    by blast
  from t have "\<exists>ds its qs.
      st_summary (logger_process sample_ex (\<lambda>n. []) empty_store sample_lines) = ds \<and>
      st_items (logger_process sample_ex (\<lambda>n. []) empty_store sample_lines) = its \<and>
      st_qr (logger_process sample_ex (\<lambda>n. []) empty_store sample_lines) = qs \<and>
      owned_rows ds its qs"
    unfolding owned_rows_def by (simp add: empty_store_def)
  then have "owned_rows (st_summary (logger_process sample_ex (\<lambda>n. []) empty_store sample_lines))
      (st_items (logger_process sample_ex (\<lambda>n. []) empty_store sample_lines))
      (st_qr (logger_process sample_ex (\<lambda>n. []) empty_store sample_lines))"
    by simp
  moreover have "length (st_summary (logger_process sample_ex (\<lambda>n. []) empty_store
      sample_lines)) = 1"
    by (simp add: sample_run)
  ultimately show ?thesis using h skip by simp
qed


section \<open>Properties of TieredRateResolver\<close>

lemma digit_val_le: "digit_val c \<le> 9"
  by (simp add: digit_val_def)

lemma digit_val_le99: "digit_val c \<le> 99"
  using digit_val_le [of c] by linarith

lemma two_digits_le99: "10 * digit_val c + digit_val d \<le> 99"
  using digit_val_le [of c] digit_val_le [of d] by linarith

lemma first_digits_bound: "first_digits s = Some ds \<Longrightarrow> int_of_digits ds \<le> 99"
proof (induction s)
  case Nil
  then show ?case by simp
next
  case (Cons c cs)
  show ?case
  proof (cases "is_digit c")
    case False
    with Cons show ?thesis by simp
  next
    case True
    with Cons.prems show ?thesis
      by (auto simp: int_of_digits_def digit_val_le99 two_digits_le99
          split: list.splits if_splits)
  qed
qed

lemma scan_rows_rate:
  "scan_rows hsn rows = (Some r, d) \<Longrightarrow> \<exists>n. n \<le> 99 \<and> r = of_nat n"
proof (induction rows)
  case Nil
  then show ?case by simp
next
  case (Cons cols rows)
  then show ?case
    by (auto split: if_splits option.splits dest: first_digits_bound)
qed

lemma source_names:
  "''Local Cache'' \<noteq> service_url hsn"
  "''Fallback Dictionary'' \<noteq> service_url hsn"
  "''Not Found'' \<noteq> service_url hsn"
  by (simp_all add: service_url_def)

lemma fallback_tier_source: "snd (snd (fallback_tier hsn)) \<noteq> service_url hsn"
  by (simp add: fallback_tier_def source_names split: option.splits)

lemma fetch_remote_rate:
  assumes "fetch_gst_details remote st hsn = ((g, d, src), st')"
    and "src = service_url hsn"
  shows "\<exists>n. 1 \<le> n \<and> n \<le> 99 \<and> g = Some (of_nat n)"
proof (cases "rs_cache st hsn")
  case (Some data)
  with assms show ?thesis by (simp add: fetch_gst_details_def source_names)
next
  case None
  show ?thesis
  proof (cases "remote (rs_requests st) (service_url hsn)")
    case RequestFailed
    with None assms fallback_tier_source [of hsn] show ?thesis
      by (auto simp: fetch_gst_details_def Let_def)
  next
    case (Response status_code rows)
    obtain g0 d0 where scan: "scan_rows hsn rows = (g0, d0)" by (cases "scan_rows hsn rows")
    show ?thesis
    proof (cases "status_code = 200 \<and> rate_truthy g0")
      case False
      with None Response scan assms fallback_tier_source [of hsn] show ?thesis
        by (auto simp: fetch_gst_details_def Let_def split: if_splits)
    next
      case True
      with None Response scan assms have g: "g = g0"
        by (simp add: fetch_gst_details_def Let_def)
      from True obtain r where r: "g0 = Some r" "r \<noteq> 0"
        by (auto simp: rate_truthy_def split: option.splits)
      with scan scan_rows_rate obtain n where n: "n \<le> 99" "r = of_nat n" by blast
      with r have "1 \<le> n" by (cases n) simp_all
      with n r g show ?thesis by blast
    qed
  qed
qed

lemma gst_row_of_halves:
  "halves_ok (gst_row_of docno docdt hsn (fst (fetch_gst_details remote st hsn)))"
proof -
  obtain g d src st' where f: "fetch_gst_details remote st hsn = ((g, d, src), st')"
    by (metis prod.exhaust)
  have "src = service_url hsn \<longrightarrow> (\<exists>n. 1 \<le> n \<and> n \<le> 99 \<and> g = Some (of_nat n))"
    using fetch_remote_rate [OF f] by blast
  then show ?thesis
    unfolding halves_ok_def f
    by (auto simp: gst_row_of_def num_cell_def rate_truthy_def split: option.splits)
qed

lemma gst_loop_rows:
  assumes "P st"
    and "\<And>st hsn. P st \<Longrightarrow> P (snd (fetch_gst_details remote st hsn))"
    and "row \<in> set (fst (gst_loop remote lk st rows))"
  shows "\<exists>docno docdt hsn st0. P st0 \<and>
           row = gst_row_of docno docdt hsn (fst (fetch_gst_details remote st0 hsn))"
  using assms(1,3)
proof (induction rows arbitrary: st)
  case Nil
  then show ?case by simp
next
  case (Cons r rows)
  show ?case
  proof (cases "truthy (cell_at r 0)")
    case False
    with Cons show ?thesis by simp
  next
    case True
    show ?thesis
    proof (cases "lk (cell_at r 0)")
      case None
      with True Cons show ?thesis by simp
    next
      case (Some hsn)
      show ?thesis
      proof (cases "hsn = []")
        case True
        with \<open>truthy (cell_at r 0)\<close> Some Cons show ?thesis by simp
      next
        case False
        obtain res st' where f: "fetch_gst_details remote st hsn = (res, st')"
          by (cases "fetch_gst_details remote st hsn")
        obtain out st'' where l: "gst_loop remote lk st' rows = (out, st'')"
          by (cases "gst_loop remote lk st' rows")
        from Cons.prems(2) \<open>truthy (cell_at r 0)\<close> Some False f l
        have "row = gst_row_of (cell_at r 0) (cell_at r 1) hsn res \<or> row \<in> set out"
          by simp
        then show ?thesis
        proof
          assume "row = gst_row_of (cell_at r 0) (cell_at r 1) hsn res"
          with f Cons.prems(1) show ?thesis by (metis fst_conv)
        next
          assume "row \<in> set out"
          moreover have "P st'" using assms(2) [OF Cons.prems(1), of hsn] f by simp
          ultimately show ?thesis using Cons.IH [of st'] l by simp
        qed
      qed
    qed
  qed
qed

lemma gst_loop_halves:
  assumes "row \<in> set (fst (gst_loop remote lk st rows))"
  shows "halves_ok row"
proof -
  from gst_loop_rows [of "\<lambda>s. True", OF _ _ assms]
  obtain docno docdt hsn st0
    where "row = gst_row_of docno docdt hsn (fst (fetch_gst_details remote st0 hsn))"
    by blast
  then show ?thesis by (simp add: gst_row_of_halves)
qed

lemma seeded_load: "seeded \<lparr>rs_cache = load_hsn_cache f, rs_requests = []\<rparr>"
  by (cases f) (auto simp: seeded_def load_hsn_cache_def)

lemma seeded_fetch: "seeded st \<Longrightarrow> seeded (snd (fetch_gst_details remote st hsn))"
  by (auto simp: seeded_def fetch_gst_details_def Let_def
      split: option.splits http_result.splits prod.splits)

lemma seeded_source:
  "seeded st \<Longrightarrow> snd (snd (fst (fetch_gst_details remote st hsn))) \<noteq> ''Fallback Dictionary''"
  by (auto simp: seeded_def fetch_gst_details_def Let_def fallback_tier_def service_url_def
      split: option.splits http_result.splits prod.splits)

lemma gst_process_never_fallback:
  assumes "row \<in> set (fst (gst_process remote sn f summary_rows qr_rows))"
  shows "g_Source row \<noteq> CStr ''Fallback Dictionary''"
proof -
  from assms gst_loop_rows [of seeded, OF seeded_load seeded_fetch]
  obtain docno docdt hsn st0 where "seeded st0"
    and "row = gst_row_of docno docdt hsn (fst (fetch_gst_details remote st0 hsn))"
    unfolding gst_process_def by blast
  then show ?thesis
    using seeded_source [of st0 remote hsn]
    by (simp add: gst_row_of_def split: prod.splits)
qed

lemma fetch_seeded_fallback_key:
  assumes "HSN_FALLBACK hsn = Some d" and "\<forall>m. f = Loaded m \<longrightarrow> m hsn = None"
  shows "fetch_gst_details remote \<lparr>rs_cache = load_hsn_cache f, rs_requests = []\<rparr> hsn =
           ((he_gst_rate d, he_description d, ''Local Cache''),
            \<lparr>rs_cache = load_hsn_cache f, rs_requests = []\<rparr>)"
  using assms
  by (cases f) (auto simp: fetch_gst_details_def load_hsn_cache_def map_add_def split: option.splits)

lemma fetch_cached_no_request:
  "rs_cache st hsn \<noteq> None \<Longrightarrow> snd (fetch_gst_details remote st hsn) = st"
  by (auto simp: fetch_gst_details_def)

lemma fetch_zero:
  assumes "rs_cache st hsn = None"
    and "remote (rs_requests st) (service_url hsn) = Response 200 rows"
    and "fst (scan_rows hsn rows) = Some 0"
  shows "fetch_gst_details remote st hsn =
           (fallback_tier hsn, st\<lparr>rs_requests := rs_requests st @ [service_url hsn]\<rparr>)"
  using assms
  by (auto simp: fetch_gst_details_def Let_def rate_truthy_def split: prod.splits)

lemma fetch_failed:
  assumes "rs_cache st hsn = None"
  shows "fetch_gst_details (\<lambda>h u. RequestFailed) st hsn =
           (fallback_tier hsn, st\<lparr>rs_requests := rs_requests st @ [service_url hsn]\<rparr>)"
  using assms by (simp add: fetch_gst_details_def Let_def)


lemma sample_gst_run:
  "fst (gst_process sample_remote (\<lambda>n. []) NoFile sample_summary (sample_qr ''7323'')) =
     [\<lparr>g_DocNo = CStr ''INV01'', g_DocDt = CStr ''01/04/2024'', g_HSN = CStr ''7323'',
       g_Description = CStr ''Table ware'', g_GST_Rate = CNum 12, g_CGST_Rate = CNum 6,
       g_SGST_Rate = CNum 6, g_Source = CStr (service_url ''7323'')\<rparr>]"
  by (simp add: gst_process_def sample_summary_def sample_qr_def cell_at_def
      fetch_gst_details_def load_hsn_cache_def HSN_FALLBACK_def sample_remote_def
      service_url_def Let_def is_digit_def int_of_digits_def digit_val_def rate_truthy_def
      gst_row_of_def num_cell_def str_cell_def desc_display_def)

text \<open>
  C4, as the code has it. The cache is loaded as the fallback table overlaid with the
  file, so a code of the fallback table that the file does not have is in the cache
  from the start: the first call answers from the cache, with the rate and the
  description of the table and the source \<^verbatim>\<open>Local Cache\<close>, and sends no request;
  the second call does the same. No row that a run writes has the source
  \<^verbatim>\<open>Fallback Dictionary\<close>.
\<close>

theorem fallback_key_served_by_cache:
  assumes "HSN_FALLBACK hsn = Some d" and "\<forall>m. f = Loaded m \<longrightarrow> m hsn = None"
  shows "fetch_gst_details remote \<lparr>rs_cache = load_hsn_cache f, rs_requests = []\<rparr> hsn =
           ((he_gst_rate d, he_description d, ''Local Cache''),
            \<lparr>rs_cache = load_hsn_cache f, rs_requests = []\<rparr>) \<and>
         fetch_gst_details remote
           (snd (fetch_gst_details remote \<lparr>rs_cache = load_hsn_cache f, rs_requests = []\<rparr> hsn))
           hsn =
           ((he_gst_rate d, he_description d, ''Local Cache''),
            \<lparr>rs_cache = load_hsn_cache f, rs_requests = []\<rparr>) \<and>
         (\<forall>row \<in> set (fst (gst_process remote sn f' summary_rows qr_rows)).
            g_Source row \<noteq> CStr ''Fallback Dictionary'')"
proof -
  note first = fetch_seeded_fallback_key [OF assms, of remote]
  show ?thesis
    by (intro conjI ballI) (simp_all only: first snd_conv gst_process_never_fallback not_False_eq_True)
qed

theorem fallback_key_served_by_cache_witness:
  "HSN_FALLBACK ''94035000'' =
     Some \<lparr>he_gst_rate = Some 18, he_description = Some ''Wooden furniture''\<rparr> \<and>
   fetch_gst_details sample_remote \<lparr>rs_cache = load_hsn_cache NoFile, rs_requests = []\<rparr>
       ''94035000'' =
     ((Some 18, Some ''Wooden furniture'', ''Local Cache''),
      \<lparr>rs_cache = load_hsn_cache NoFile, rs_requests = []\<rparr>)"
proof -
  have h: "HSN_FALLBACK ''94035000'' =
      Some \<lparr>he_gst_rate = Some 18, he_description = Some ''Wooden furniture''\<rparr>"
    by (simp add: HSN_FALLBACK_def)
  have g: "\<forall>m. NoFile = Loaded m \<longrightarrow> m ''94035000'' = None" by simp
  from fallback_key_served_by_cache [OF h g, of sample_remote] h show ?thesis by simp
qed

text \<open>
  C4 as the specification states it fails: for the first code of the fallback table
  and no cache file, the source of the first call is not the fallback tier.
\<close>

theorem fallback_source_counterexample:
  "HSN_FALLBACK ''94035000'' \<noteq> None \<and>
   snd (snd (fst (fetch_gst_details sample_remote
      \<lparr>rs_cache = load_hsn_cache NoFile, rs_requests = []\<rparr> ''94035000''))) = ''Local Cache'' \<and>
   snd (snd (fst (fetch_gst_details sample_remote
      \<lparr>rs_cache = load_hsn_cache NoFile, rs_requests = []\<rparr> ''94035000''))) \<noteq>
     ''Fallback Dictionary''"
  by (simp add: fetch_gst_details_def load_hsn_cache_def HSN_FALLBACK_def)

text \<open>
  The rate columns of every row that a run writes to GST\_Fetch, as the truthiness test
  of \<^verbatim>\<open>process\<close> fills them: with a rate other than 0 both halves are exactly half
  of it, otherwise both are empty; and a rate that the lookup service supplied (the
  source is its address) is a whole number from 1 to 99.
\<close>

theorem rate_record_halves:
  "\<forall>row \<in> set (fst (gst_process remote sn f summary_rows qr_rows)).
     (g_GST_Rate row = CNone \<or> g_GST_Rate row = CNum 0 \<longrightarrow>
        g_CGST_Rate row = CNone \<and> g_SGST_Rate row = CNone) \<and>
     (\<forall>r. g_GST_Rate row = CNum r \<and> r \<noteq> 0 \<longrightarrow>
        g_CGST_Rate row = CNum (r / 2) \<and> g_SGST_Rate row = CNum (r / 2)) \<and>
     (\<forall>hsn. g_HSN row = CStr hsn \<and> g_Source row = CStr (service_url hsn) \<longrightarrow>
        (\<exists>n. 1 \<le> n \<and> n \<le> 99 \<and> g_GST_Rate row = CNum (of_nat n)))"
proof
  fix row
  assume "row \<in> set (fst (gst_process remote sn f summary_rows qr_rows))"
  then have "halves_ok row" unfolding gst_process_def by (rule gst_loop_halves)
  then show "(g_GST_Rate row = CNone \<or> g_GST_Rate row = CNum 0 \<longrightarrow>
        g_CGST_Rate row = CNone \<and> g_SGST_Rate row = CNone) \<and>
     (\<forall>r. g_GST_Rate row = CNum r \<and> r \<noteq> 0 \<longrightarrow>
        g_CGST_Rate row = CNum (r / 2) \<and> g_SGST_Rate row = CNum (r / 2)) \<and>
     (\<forall>hsn. g_HSN row = CStr hsn \<and> g_Source row = CStr (service_url hsn) \<longrightarrow>
        (\<exists>n. 1 \<le> n \<and> n \<le> 99 \<and> g_GST_Rate row = CNum (of_nat n)))"
    unfolding halves_ok_def .
qed

theorem rate_record_halves_witness:
  "g_GST_Rate (hd (fst (gst_process sample_remote (\<lambda>n. []) NoFile sample_summary
      (sample_qr ''7323'')))) = CNum 12 \<and>
   g_CGST_Rate (hd (fst (gst_process sample_remote (\<lambda>n. []) NoFile sample_summary
      (sample_qr ''7323'')))) = CNum (12 / 2) \<and>
   g_SGST_Rate (hd (fst (gst_process sample_remote (\<lambda>n. []) NoFile sample_summary
      (sample_qr ''7323'')))) = CNum (12 / 2)"
proof -
  let ?rows = "fst (gst_process sample_remote (\<lambda>n. []) NoFile sample_summary (sample_qr ''7323''))"
  have r: "g_GST_Rate (hd ?rows) = CNum 12" by (simp add: sample_gst_run)
  have "hd ?rows \<in> set ?rows" by (simp add: sample_gst_run)
  with rate_record_halves [of sample_remote "\<lambda>n. []" NoFile sample_summary "sample_qr ''7323''"]
  have "\<forall>r. g_GST_Rate (hd ?rows) = CNum r \<and> r \<noteq> 0 \<longrightarrow>
        g_CGST_Rate (hd ?rows) = CNum (r / 2) \<and> g_SGST_Rate (hd ?rows) = CNum (r / 2)"
    by blast
  with r have "g_CGST_Rate (hd ?rows) = CNum (12 / 2) \<and> g_SGST_Rate (hd ?rows) = CNum (12 / 2)"
    by simp
  with r show ?thesis by simp
qed

text \<open>
  C7: a rate of 0 in the cache. The cache file has an entry of rate 0 for the code of
  the document. The row that \<^verbatim>\<open>process\<close> writes has the rate 0,
  found in the cache, and empty halves, where the specification asks for half of the
  rate: the test \<^verbatim>\<open>if gst_rate:\<close> takes the rate 0 for a missing rate.
\<close>

theorem zero_rate_record_null_halves:
  "load_hsn_cache zero_rate_file ''1001'' =
     Some \<lparr>he_gst_rate = Some 0, he_description = Some ''Live horses''\<rparr> \<and>
   fst (gst_process sample_remote (\<lambda>n. []) zero_rate_file sample_summary (sample_qr ''1001'')) =
     [\<lparr>g_DocNo = CStr ''INV01'', g_DocDt = CStr ''01/04/2024'', g_HSN = CStr ''1001'',
       g_Description = CStr ''Live horses'', g_GST_Rate = CNum 0, g_CGST_Rate = CNone,
       g_SGST_Rate = CNone, g_Source = CStr ''Local Cache''\<rparr>]"
  by (simp add: gst_process_def sample_summary_def sample_qr_def cell_at_def
      fetch_gst_details_def load_hsn_cache_def HSN_FALLBACK_def zero_rate_file_def
      Let_def rate_truthy_def map_add_def
      gst_row_of_def num_cell_def str_cell_def desc_display_def)

text \<open>
  C10: when the service answers with a rate that reads as 0 for a code that is not in
  the cache, the call writes nothing to the cache and returns what the fallback tier
  returns (\<^verbatim>\<open>Not Found\<close> without rate and description when the code is not in the
  table): exactly the result and the state of a call whose request fails. In the output
  stage a row with the rate 0 has empty halves.
\<close>

theorem zero_rate_is_not_found:
  assumes "rs_cache st hsn = None"
    and "remote (rs_requests st) (service_url hsn) = Response 200 rows"
    and "fst (scan_rows hsn rows) = Some 0"
  shows "fetch_gst_details remote st hsn =
           (fallback_tier hsn, st\<lparr>rs_requests := rs_requests st @ [service_url hsn]\<rparr>) \<and>
         rs_cache (snd (fetch_gst_details remote st hsn)) = rs_cache st \<and>
         (HSN_FALLBACK hsn = None \<longrightarrow>
            fst (fetch_gst_details remote st hsn) = (None, None, ''Not Found'')) \<and>
         fetch_gst_details remote st hsn = fetch_gst_details (\<lambda>h u. RequestFailed) st hsn \<and>
         (\<forall>row \<in> set (fst (gst_process remote' sn f summary_rows qr_rows)).
            g_GST_Rate row = CNum 0 \<longrightarrow> g_CGST_Rate row = CNone \<and> g_SGST_Rate row = CNone)"
proof -
  note z = fetch_zero [where remote = remote, OF assms]
  have a: "rs_cache (snd (fetch_gst_details remote st hsn)) = rs_cache st"
    by (simp add: z)
  have b: "HSN_FALLBACK hsn = None \<longrightarrow>
      fst (fetch_gst_details remote st hsn) = (None, None, ''Not Found'')"
    by (simp add: z fallback_tier_def)
  have c: "fetch_gst_details remote st hsn = fetch_gst_details (\<lambda>h u. RequestFailed) st hsn"
    by (simp add: z fetch_failed [OF assms(1)])
  have d: "g_GST_Rate row = CNum 0 \<longrightarrow> g_CGST_Rate row = CNone \<and> g_SGST_Rate row = CNone"
    if "row \<in> set (fst (gst_process remote' sn f summary_rows qr_rows))" for row
  proof -
    from that have "halves_ok row" unfolding gst_process_def by (rule gst_loop_halves)
    then show ?thesis unfolding halves_ok_def by blast
  qed
  from z a b c d show ?thesis by blast
qed

theorem zero_rate_is_not_found_witness:
  "rs_cache \<lparr>rs_cache = load_hsn_cache NoFile, rs_requests = []\<rparr> ''1001'' = None \<and>
   fst (scan_rows ''1001'' [[''HSN'', ''Description''], [''1001'', ''Live horses'', ''0%'']]) =
     Some 0 \<and>
   fetch_gst_details sample_remote \<lparr>rs_cache = load_hsn_cache NoFile, rs_requests = []\<rparr> ''1001'' =
     ((None, None, ''Not Found''),
      \<lparr>rs_cache = load_hsn_cache NoFile, rs_requests = [service_url ''1001'']\<rparr>)"
proof -
  let ?st = "\<lparr>rs_cache = load_hsn_cache NoFile, rs_requests = []\<rparr>"
  let ?rows = "[[''HSN'', ''Description''], [''1001'', ''Live horses'', ''0%'']]"
  have h1: "rs_cache ?st ''1001'' = None"
    by (simp add: load_hsn_cache_def HSN_FALLBACK_def)
  have h2: "sample_remote (rs_requests ?st) (service_url ''1001'') = Response 200 ?rows"
    by (simp add: sample_remote_def)
  have h3: "fst (scan_rows ''1001'' ?rows) = Some 0"
    by (simp add: is_digit_def int_of_digits_def digit_val_def)
  have fb: "fallback_tier ''1001'' = (None, None, ''Not Found'')"
    by (simp add: fallback_tier_def HSN_FALLBACK_def)
  from zero_rate_is_not_found [where remote = sample_remote, OF h1 h2 h3] have
    "fetch_gst_details sample_remote ?st ''1001'' =
       (fallback_tier ''1001'', ?st\<lparr>rs_requests := rs_requests ?st @ [service_url ''1001'']\<rparr>)"
    by (rule conjunct1)
  with h1 h3 fb show ?thesis by simp
qed


section \<open>Properties of ReconciliationEngine\<close>

lemma match_flag_Cross:
  "match_flag computed amount_f = Cross \<longleftrightarrow>
     \<not> (\<exists>c a. computed = Some c \<and> amount_f = Some a \<and> py_round2 c = py_round2 a)"
  by (cases computed; cases amount_f) (simp_all add: match_flag_def)

lemma line_item_check_errors:
  "fst (line_item_check fs acc items) =
     fst acc @ map (error_row_of fs)
       (filter (\<lambda>item. truthy (li_DocNo item) \<and>
                  match_flag (item_computed fs item) (item_amount fs item) = Cross) items)"
  by (induction items arbitrary: acc) simp_all

lemma map_of_totals_add:
  "map_of (totals_add kvs k x) =
     (map_of kvs)(k \<mapsto> (case map_of kvs k of None \<Rightarrow> 0 | Some v \<Rightarrow> v) + x)"
  by (induction kvs) (auto simp: fun_eq_iff)

lemma keys_list_totals_add:
  "map fst (totals_add kvs k x) =
     (if k \<in> fst ` set kvs then map fst kvs else map fst kvs @ [k])"
proof (induction kvs)
  case Nil
  show ?case by simp
next
  case (Cons kv kvs)
  obtain k' v where kv: "kv = (k', v)" by (cases kv)
  show ?case
  proof (cases "k' = k")
    case True
    then show ?thesis by (simp add: kv)
  next
    case False
    then have "k \<in> fst ` set (kv # kvs) \<longleftrightarrow> k \<in> fst ` set kvs"
      by (auto simp: kv)
    with False Cons.IH show ?thesis by (simp add: kv)
  qed
qed

lemma distinct_totals_add:
  "distinct (map fst kvs) \<Longrightarrow> distinct (map fst (totals_add kvs k x))"
  by (simp add: keys_list_totals_add)

lemma taxable_of_Cons:
  "taxable_of fs (item # items) d =
     (if li_DocNo item = d then item_value fs item else 0) + taxable_of fs items d"
  by (simp add: taxable_of_def)

lemma taxable_of_none:
  "truthy d \<Longrightarrow> \<forall>i \<in> set items. truthy (li_DocNo i) \<longrightarrow> li_DocNo i \<noteq> d \<Longrightarrow>
     taxable_of fs items d = 0"
proof -
  assume "truthy d" and "\<forall>i \<in> set items. truthy (li_DocNo i) \<longrightarrow> li_DocNo i \<noteq> d"
  then have "filter (\<lambda>item. li_DocNo item = d) items = []"
    by (auto simp: filter_empty_conv)
  then show ?thesis by (simp add: taxable_of_def)
qed

lemma line_item_check_totals:
  assumes "distinct (map fst (snd acc))"
  shows "distinct (map fst (snd (line_item_check fs acc items))) \<and>
         map_of (snd (line_item_check fs acc items)) d =
           (if (\<exists>i \<in> set items. truthy (li_DocNo i) \<and> li_DocNo i = d)
            then Some ((case map_of (snd acc) d of None \<Rightarrow> 0 | Some v \<Rightarrow> v) +
                       (if truthy d then taxable_of fs items d else 0))
            else map_of (snd acc) d)"
  using assms
proof (induction items arbitrary: acc)
  case Nil
  then show ?case by simp
next
  case (Cons item items)
  show ?case
  proof (cases "truthy (li_DocNo item)")
    case False
    with Cons.IH [OF Cons.prems] show ?thesis
      by (auto simp: taxable_of_Cons)
  next
    case True
    let ?acc' = "(if match_flag (item_computed fs item) (item_amount fs item) = Cross
           then fst acc @ [error_row_of fs item] else fst acc,
           totals_add (snd acc) (li_DocNo item) (item_value fs item))"
    have step: "line_item_check fs acc (item # items) = line_item_check fs ?acc' items"
      using True by (simp add: item_value_def)
    have d: "distinct (map fst (snd ?acc'))"
      using Cons.prems by (simp add: distinct_totals_add)
    note ih = Cons.IH [OF d]
    show ?thesis
      unfolding step using ih True
      by (auto simp: map_of_totals_add taxable_of_Cons taxable_of_none split: option.splits)
  qed
qed

lemma compare_doc_None:
  "compare_doc gst_info qr_total docno taxable = None \<longleftrightarrow>
     (gst_info = None \<or> gi_CGST (the gst_info) = None \<or> gi_SGST (the gst_info) = None \<or>
      qr_total = None)"
  by (cases gst_info) (simp_all add: compare_doc_def Let_def)

lemma compare_doc_Some:
  assumes "gi_CGST g = Some cgst" and "gi_SGST g = Some sgst"
  shows "compare_doc (Some g) (Some declared) docno taxable =
     Some \<lparr>r_DocNo = docno, r_Taxable = py_round2 taxable, r_GST_Rate = gi_GST g,
           r_CGST_calc = py_round2 (taxable * (cgst / 100)),
           r_SGST_calc = py_round2 (taxable * (sgst / 100)),
           r_ExpectedTotal =
             py_round2 (taxable + taxable * (cgst / 100) + taxable * (sgst / 100)),
           r_QR_Total = declared,
           r_Diff =
             py_round2 (taxable + taxable * (cgst / 100) + taxable * (sgst / 100) - declared),
           r_InvoiceTotal_OK =
             (if \<bar>py_round2 (taxable + taxable * (cgst / 100) + taxable * (sgst / 100) -
                             declared)\<bar> < 1 / 100
              then Check else Cross)\<rparr>"
  using assms by (simp add: compare_doc_def Let_def)

lemma line_totals_lookup:
  "(d, t) \<in> set (snd (line_item_check fs ([], []) items)) \<longleftrightarrow>
     (\<exists>i \<in> set items. truthy (li_DocNo i) \<and> li_DocNo i = d) \<and> t = taxable_of fs items d"
proof -
  have a: "distinct (map fst (snd (([], []) :: error_row list \<times> (cell \<times> rat) list)))" by simp
  note t = line_item_check_totals [OF a, of fs items d]
  from t have dist: "distinct (map fst (snd (line_item_check fs ([], []) items)))" by blast
  from dist have "(d, t) \<in> set (snd (line_item_check fs ([], []) items)) \<longleftrightarrow>
      map_of (snd (line_item_check fs ([], []) items)) d = Some t"
    by simp
  also have "\<dots> \<longleftrightarrow> (\<exists>i \<in> set items. truthy (li_DocNo i) \<and> li_DocNo i = d) \<and>
      t = taxable_of fs items d"
    using t by auto
  finally show ?thesis .
qed

lemma in_set_map_filter:
  "y \<in> set (List.map_filter f xs) \<longleftrightarrow> (\<exists>x \<in> set xs. f x = Some y)"
  by (induction xs) (auto split: option.splits)

lemma reviewer_process_Inr:
  assumes "reviewer_process fs sn items gst_rows header summary_rows = Inr out"
  shows "\<exists>gst_lookup. build_gst_lookup fs Map.empty gst_rows = Inr gst_lookup \<and>
     ro_errors out = fst (line_item_check fs ([], []) items) \<and>
     ro_reviews out =
       List.map_filter
         (\<lambda>(docno, taxable).
            compare_doc (gst_lookup docno)
              (qr_total_of (build_summary_lookup fs (find_totinv_column sn header) Map.empty
                 summary_rows) docno)
              docno taxable)
         (snd (line_item_check fs ([], []) items))"
  using assms
  by (auto simp: reviewer_process_def Let_def split: prod.splits sum.splits)

lemma reviewer_rows:
  assumes "reviewer_process fs sn items gst_rows header summary_rows = Inr out"
  shows "\<exists>gst_lookup. build_gst_lookup fs Map.empty gst_rows = Inr gst_lookup \<and>
     (\<forall>row. row \<in> set (ro_reviews out) \<longleftrightarrow>
        (\<exists>d. (\<exists>i \<in> set items. truthy (li_DocNo i) \<and> li_DocNo i = d) \<and>
           compare_doc (gst_lookup d)
             (qr_total_of (build_summary_lookup fs (find_totinv_column sn header) Map.empty
                summary_rows) d)
             d (taxable_of fs items d) = Some row))"
proof -
  from reviewer_process_Inr [OF assms] obtain gl where
    gl: "build_gst_lookup fs Map.empty gst_rows = Inr gl" and
    rv: "ro_reviews out =
       List.map_filter
         (\<lambda>(docno, taxable).
            compare_doc (gl docno)
              (qr_total_of (build_summary_lookup fs (find_totinv_column sn header) Map.empty
                 summary_rows) docno)
              docno taxable)
         (snd (line_item_check fs ([], []) items))"
    by blast
  let ?qt = "qr_total_of (build_summary_lookup fs (find_totinv_column sn header) Map.empty
      summary_rows)"
  have "row \<in> set (ro_reviews out) \<longleftrightarrow>
        (\<exists>d. (\<exists>i \<in> set items. truthy (li_DocNo i) \<and> li_DocNo i = d) \<and>
           compare_doc (gl d) (?qt d) d (taxable_of fs items d) = Some row)" for row
  proof -
    have "row \<in> set (ro_reviews out) \<longleftrightarrow>
        (\<exists>d t. (d, t) \<in> set (snd (line_item_check fs ([], []) items)) \<and>
           compare_doc (gl d) (?qt d) d t = Some row)"
      unfolding rv by (force simp: in_set_map_filter)
    also have "\<dots> \<longleftrightarrow> (\<exists>d. (\<exists>i \<in> set items. truthy (li_DocNo i) \<and> li_DocNo i = d) \<and>
           compare_doc (gl d) (?qt d) d (taxable_of fs items d) = Some row)"
      unfolding line_totals_lookup by blast
    finally show ?thesis .
  qed
  with gl show ?thesis by blast
qed

lemma totinv_column: "find_totinv_column sn summary_header = Some 11"
  by (simp add: find_totinv_column_def summary_header_def header_norm_def strong_match_def
      lower_def lower_char_def strip_def is_space_def)

lemma sample_gst_lookup:
  "build_gst_lookup fs Map.empty sample_gst_rows =
     Inr [CStr ''INV01'' \<mapsto>
           \<lparr>gi_HSN = CStr ''94035000'', gi_Description = CStr ''Wooden furniture'',
            gi_Source = CStr ''Local Cache'', gi_GST = Some 18, gi_CGST = Some 9,
            gi_SGST = Some 9\<rparr>]"
  by (simp add: sample_gst_rows_def opt_float_def)

lemma sample_review_run:
  "reviewer_process fs sn sample_items sample_gst_rows summary_header sample_summary_rows =
     Inr \<lparr>ro_errors = [],
          ro_reviews =
            [\<lparr>r_DocNo = CStr ''INV01'', r_Taxable = 1000, r_GST_Rate = Some 18,
              r_CGST_calc = 90, r_SGST_calc = 90, r_ExpectedTotal = 1180, r_QR_Total = 1180,
              r_Diff = 0, r_InvoiceTotal_OK = Check\<rparr>]\<rparr>"
  by (simp add: reviewer_process_def sample_gst_lookup totinv_column sample_items_def
      sample_summary_rows_def item_computed_def item_amount_def match_flag_def py_round2_def
      Let_def cell_at_def to_float_def qr_total_of_def compare_doc_def)

lemma no_items_review_run:
  "reviewer_process fs sn [] sample_gst_rows summary_header sample_summary_rows =
     Inr \<lparr>ro_errors = [], ro_reviews = []\<rparr>"
  by (simp add: reviewer_process_def sample_gst_lookup)

lemma single_item_error:
  "truthy (li_DocNo item) \<Longrightarrow>
     fst (line_item_check fs ([], []) [item]) =
       (if match_flag (item_computed fs item) (item_amount fs item) = Cross
        then [error_row_of fs item] else [])"
  by simp

lemma sample_line_fields:
  "truthy (li_DocNo (sample_line amount))"
  "item_computed fs (sample_line amount) = Some 300"
  "item_amount fs (sample_line (CNum a)) = Some a"
  "item_amount fs (sample_line CNone) = None"
  by (simp_all add: sample_line_def item_computed_def item_amount_def)

lemma round2_examples:
  "py_round2 300 = 300" "py_round2 (599 / 2) = 599 / 2"
  by (simp_all add: py_round2_def Let_def)

text \<open>
  C3, as the code has it. A line item with a document number gets a row of
  LineItem\_Errors exactly when it is not the case that the stored amount and the
  computed amount are both numbers and agree after rounding to two decimals: when they
  differ, and also when one of them is missing. With quantity 2 and rate 150 the stored
  amount 300 gives no row, the stored amount 299.50 gives a row with the computed
  amount 300.
\<close>

theorem error_record_emitted_iff:
  "fst (line_item_check fs ([], []) items) =
     map (error_row_of fs)
       (filter (\<lambda>item. truthy (li_DocNo item) \<and>
                  \<not> (\<exists>c a. item_computed fs item = Some c \<and> item_amount fs item = Some a \<and>
                           py_round2 c = py_round2 a)) items) \<and>
   (reviewer_process fs sn items gst_rows header summary_rows = Inr out \<longrightarrow>
      ro_errors out = fst (line_item_check fs ([], []) items)) \<and>
   fst (line_item_check fs ([], []) [sample_line (CNum 300)]) = [] \<and>
   map e_ComputedAmount (fst (line_item_check fs ([], []) [sample_line (CNum (599 / 2))])) =
     [Some 300] \<and>
   (truthy (li_DocNo item) \<and> (item_computed fs item = None \<or> item_amount fs item = None) \<longrightarrow>
      fst (line_item_check fs ([], []) [item]) = [error_row_of fs item])"
proof (intro conjI impI)
  show "fst (line_item_check fs ([], []) items) =
     map (error_row_of fs)
       (filter (\<lambda>item. truthy (li_DocNo item) \<and>
                  \<not> (\<exists>c a. item_computed fs item = Some c \<and> item_amount fs item = Some a \<and>
                           py_round2 c = py_round2 a)) items)"
    by (simp add: line_item_check_errors match_flag_Cross)
  show "ro_errors out = fst (line_item_check fs ([], []) items)"
    if "reviewer_process fs sn items gst_rows header summary_rows = Inr out"
    using reviewer_process_Inr [OF that] by blast
  show "fst (line_item_check fs ([], []) [sample_line (CNum 300)]) = []"
    by (simp add: single_item_error sample_line_fields match_flag_def)
  show "map e_ComputedAmount (fst (line_item_check fs ([], []) [sample_line (CNum (599 / 2))])) =
     [Some 300]"
    by (simp add: single_item_error sample_line_fields match_flag_def round2_examples
        error_row_of_def)
  show "fst (line_item_check fs ([], []) [item]) = [error_row_of fs item]"
    if "truthy (li_DocNo item) \<and> (item_computed fs item = None \<or> item_amount fs item = None)"
    using that by (auto simp: single_item_error match_flag_def)
qed

theorem error_record_emitted_iff_witness:
  "reviewer_process (\<lambda>s. None) (\<lambda>n. []) sample_items sample_gst_rows summary_header
     sample_summary_rows = Inr sample_review_out \<and>
   ro_errors sample_review_out = fst (line_item_check (\<lambda>s. None) ([], []) sample_items) \<and>
   truthy (li_DocNo (sample_line CNone)) \<and>
   item_amount (\<lambda>s. None) (sample_line CNone) = None \<and>
   fst (line_item_check (\<lambda>s. None) ([], []) [sample_line CNone]) =
     [error_row_of (\<lambda>s. None) (sample_line CNone)]"
proof -
  have run: "reviewer_process (\<lambda>s. None) (\<lambda>n. []) sample_items sample_gst_rows summary_header
      sample_summary_rows = Inr sample_review_out"
    by (simp add: sample_review_run sample_review_out_def)
  have h: "truthy (li_DocNo (sample_line CNone)) \<and>
      (item_computed (\<lambda>s. None) (sample_line CNone) = None \<or>
       item_amount (\<lambda>s. None) (sample_line CNone) = None)"
    by (simp add: sample_line_fields)
  note t = error_record_emitted_iff [of "\<lambda>s. None" sample_items "\<lambda>n. []" sample_gst_rows
      summary_header sample_summary_rows sample_review_out "sample_line CNone"]
  from t run have a: "ro_errors sample_review_out =
      fst (line_item_check (\<lambda>s. None) ([], []) sample_items)"
    by blast
  from t h have b: "fst (line_item_check (\<lambda>s. None) ([], []) [sample_line CNone]) =
      [error_row_of (\<lambda>s. None) (sample_line CNone)]"
    by blast
  from run a b show ?thesis by (simp add: sample_line_fields)
qed

text \<open>
  C3 as the specification states it fails: a line item without a stored amount gets a
  row of LineItem\_Errors.
\<close>

theorem absent_amount_counterexample:
  "item_amount (\<lambda>s. None) (sample_line CNone) = None \<and>
   fst (line_item_check (\<lambda>s. None) ([], []) [sample_line CNone]) \<noteq> []"
  by (simp add: single_item_error sample_line_fields match_flag_def)

text \<open>
  C2, as the code has it. A run that ends without exception writes a row of
  Review\_Report exactly for the documents that have a line item, both halves of the
  rate and a declared total. The row holds the expected total
  \<open>taxable + taxable * cgst / 100 + taxable * sgst / 100\<close> rounded to two decimals, the
  difference of the (unrounded) expected total and the declared total rounded to two
  decimals, and the check mark exactly when the absolute value of that difference is
  below 0.01. With taxable 1000 and 9 and 9 percent the expected total is 1180; the
  declared total 1180 gives the difference 0 and the check mark, the declared total
  1175 the difference 5 and the cross.
\<close>

theorem review_record_written:
  assumes "reviewer_process fs sn items gst_rows header summary_rows = Inr out"
  shows "(\<exists>gst_lookup. build_gst_lookup fs Map.empty gst_rows = Inr gst_lookup \<and>
     (\<forall>row. row \<in> set (ro_reviews out) \<longleftrightarrow>
        (\<exists>d. (\<exists>i \<in> set items. truthy (li_DocNo i) \<and> li_DocNo i = d) \<and>
           compare_doc (gst_lookup d)
             (qr_total_of (build_summary_lookup fs (find_totinv_column sn header) Map.empty
                summary_rows) d)
             d (taxable_of fs items d) = Some row))) \<and>
   (compare_doc gst_info qr_total docno taxable \<noteq> None \<longleftrightarrow>
      (\<exists>g cgst sgst declared. gst_info = Some g \<and> gi_CGST g = Some cgst \<and>
         gi_SGST g = Some sgst \<and> qr_total = Some declared)) \<and>
   (gi_CGST g = Some cgst \<and> gi_SGST g = Some sgst \<longrightarrow>
      compare_doc (Some g) (Some declared) docno taxable =
        Some \<lparr>r_DocNo = docno, r_Taxable = py_round2 taxable, r_GST_Rate = gi_GST g,
              r_CGST_calc = py_round2 (taxable * (cgst / 100)),
              r_SGST_calc = py_round2 (taxable * (sgst / 100)),
              r_ExpectedTotal =
                py_round2 (taxable + taxable * (cgst / 100) + taxable * (sgst / 100)),
              r_QR_Total = declared,
              r_Diff =
                py_round2 (taxable + taxable * (cgst / 100) + taxable * (sgst / 100) -
                           declared),
              r_InvoiceTotal_OK =
                (if \<bar>py_round2 (taxable + taxable * (cgst / 100) + taxable * (sgst / 100) -
                                declared)\<bar> < 1 / 100
                 then Check else Cross)\<rparr>) \<and>
   (gi_CGST g = Some 9 \<and> gi_SGST g = Some 9 \<longrightarrow>
      (\<exists>row. compare_doc (Some g) (Some 1180) docno 1000 = Some row \<and>
         r_ExpectedTotal row = 1180 \<and> r_Diff row = 0 \<and> r_InvoiceTotal_OK row = Check) \<and>
      (\<exists>row. compare_doc (Some g) (Some 1175) docno 1000 = Some row \<and>
         r_ExpectedTotal row = 1180 \<and> r_Diff row = 5 \<and> r_InvoiceTotal_OK row = Cross))"
proof (intro conjI impI)
  show "\<exists>gst_lookup. build_gst_lookup fs Map.empty gst_rows = Inr gst_lookup \<and>
     (\<forall>row. row \<in> set (ro_reviews out) \<longleftrightarrow>
        (\<exists>d. (\<exists>i \<in> set items. truthy (li_DocNo i) \<and> li_DocNo i = d) \<and>
           compare_doc (gst_lookup d)
             (qr_total_of (build_summary_lookup fs (find_totinv_column sn header) Map.empty
                summary_rows) d)
             d (taxable_of fs items d) = Some row))"
    by (rule reviewer_rows [OF assms])
  show "compare_doc gst_info qr_total docno taxable \<noteq> None \<longleftrightarrow>
      (\<exists>g cgst sgst declared. gst_info = Some g \<and> gi_CGST g = Some cgst \<and>
         gi_SGST g = Some sgst \<and> qr_total = Some declared)"
    by (cases gst_info) (auto simp: compare_doc_None)
  show "compare_doc (Some g) (Some declared) docno taxable =
        Some \<lparr>r_DocNo = docno, r_Taxable = py_round2 taxable, r_GST_Rate = gi_GST g,
              r_CGST_calc = py_round2 (taxable * (cgst / 100)),
              r_SGST_calc = py_round2 (taxable * (sgst / 100)),
              r_ExpectedTotal =
                py_round2 (taxable + taxable * (cgst / 100) + taxable * (sgst / 100)),
              r_QR_Total = declared,
              r_Diff =
                py_round2 (taxable + taxable * (cgst / 100) + taxable * (sgst / 100) -
                           declared),
              r_InvoiceTotal_OK =
                (if \<bar>py_round2 (taxable + taxable * (cgst / 100) + taxable * (sgst / 100) -
                                declared)\<bar> < 1 / 100
                 then Check else Cross)\<rparr>"
    if "gi_CGST g = Some cgst \<and> gi_SGST g = Some sgst"
    using that by (intro compare_doc_Some) simp_all
  show "\<exists>row. compare_doc (Some g) (Some 1180) docno 1000 = Some row \<and>
         r_ExpectedTotal row = 1180 \<and> r_Diff row = 0 \<and> r_InvoiceTotal_OK row = Check"
    if "gi_CGST g = Some 9 \<and> gi_SGST g = Some 9"
    using that by (simp add: compare_doc_def Let_def py_round2_def)
  show "\<exists>row. compare_doc (Some g) (Some 1175) docno 1000 = Some row \<and>
         r_ExpectedTotal row = 1180 \<and> r_Diff row = 5 \<and> r_InvoiceTotal_OK row = Cross"
    if "gi_CGST g = Some 9 \<and> gi_SGST g = Some 9"
    using that by (simp add: compare_doc_def Let_def py_round2_def)
qed

theorem review_record_written_witness:
  "reviewer_process (\<lambda>s. None) (\<lambda>n. []) sample_items sample_gst_rows summary_header
     sample_summary_rows = Inr sample_review_out \<and>
   (\<exists>gst_lookup. build_gst_lookup (\<lambda>s. None) Map.empty sample_gst_rows = Inr gst_lookup \<and>
     (\<forall>row. row \<in> set (ro_reviews sample_review_out) \<longleftrightarrow>
        (\<exists>d. (\<exists>i \<in> set sample_items. truthy (li_DocNo i) \<and> li_DocNo i = d) \<and>
           compare_doc (gst_lookup d)
             (qr_total_of (build_summary_lookup (\<lambda>s. None)
                (find_totinv_column (\<lambda>n. []) summary_header) Map.empty sample_summary_rows) d)
             d (taxable_of (\<lambda>s. None) sample_items d) = Some row)))"
proof -
  have run: "reviewer_process (\<lambda>s. None) (\<lambda>n. []) sample_items sample_gst_rows summary_header
      sample_summary_rows = Inr sample_review_out"
    by (simp add: sample_review_run sample_review_out_def)
  from review_record_written [OF run] run show ?thesis by blast
qed

text \<open>
  C2 as the specification states it fails: a document with a rate and a declared total
  and without line items gets no row of Review\_Report.
\<close>

theorem no_line_items_counterexample:
  "build_gst_lookup (\<lambda>s. None) Map.empty sample_gst_rows =
     Inr [CStr ''INV01'' \<mapsto>
           \<lparr>gi_HSN = CStr ''94035000'', gi_Description = CStr ''Wooden furniture'',
            gi_Source = CStr ''Local Cache'', gi_GST = Some 18, gi_CGST = Some 9,
            gi_SGST = Some 9\<rparr>] \<and>
   qr_total_of (build_summary_lookup (\<lambda>s. None) (find_totinv_column (\<lambda>n. []) summary_header)
      Map.empty sample_summary_rows) (CStr ''INV01'') = Some 1180 \<and>
   reviewer_process (\<lambda>s. None) (\<lambda>n. []) [] sample_gst_rows summary_header sample_summary_rows =
     Inr \<lparr>ro_errors = [], ro_reviews = []\<rparr>"
proof (intro conjI)
  show "build_gst_lookup (\<lambda>s. None) Map.empty sample_gst_rows =
     Inr [CStr ''INV01'' \<mapsto>
           \<lparr>gi_HSN = CStr ''94035000'', gi_Description = CStr ''Wooden furniture'',
            gi_Source = CStr ''Local Cache'', gi_GST = Some 18, gi_CGST = Some 9,
            gi_SGST = Some 9\<rparr>]"
    by (rule sample_gst_lookup)
  show "qr_total_of (build_summary_lookup (\<lambda>s. None) (find_totinv_column (\<lambda>n. []) summary_header)
      Map.empty sample_summary_rows) (CStr ''INV01'') = Some 1180"
    by (simp add: totinv_column sample_summary_rows_def qr_total_of_def cell_at_def
        to_float_def)
  show "reviewer_process (\<lambda>s. None) (\<lambda>n. []) [] sample_gst_rows summary_header
      sample_summary_rows = Inr \<lparr>ro_errors = [], ro_reviews = []\<rparr>"
    by (rule no_items_review_run)
qed


end
